theory Spec2Isabelle
  imports Main "HOL-Library.Word"
begin

section \<open>Python values, errors and effects\<close>

text \<open>
  The values that \<^verbatim>\<open>json.loads\<close> can produce and that the module's dict literals hold:
  \<^verbatim>\<open>None\<close>, booleans, integers, floats (an IEEE double, kept as its 64 bits), strings,
  lists and dicts. A dict is an association list in insertion order; its keys are strings.
\<close>

datatype pyval =
    PNone
  | PBool bool
  | PInt int
  | PFloat "64 word"
  | PStr string
  | PList "pyval list"
  | PDict "(string \<times> pyval) list"

text \<open>
  What a call returns: a JSON-like value, or some other object (a class instance), which
  \<^verbatim>\<open>json.dumps\<close> refuses.
\<close>

datatype pyres = Json pyval | Opaque

text \<open>The exceptions the module can raise; none of them is caught anywhere in \<^verbatim>\<open>app.py\<close>.\<close>

datatype py_error =
    JSONDecodeError
  | TypeError
  | KeyError
  | IndexError
  | RequestException
  | ModelInvocationError
  | ExternalError

text \<open>
  The observable effects, in the order they happen: a line printed under \<^verbatim>\<open>DEBUG\<close>, a
  notification handed to \<^verbatim>\<open>requests.post\<close>, and a call of an imported callable or of the
  class \<^verbatim>\<open>Me\<close>.
\<close>

datatype event =
    Print string
  | Post pyval
  | ExternalCall string "(string \<times> pyval) list"

section \<open>Messages and model responses\<close>

text \<open>
  \<^verbatim>\<open>tool_call.id\<close>, \<^verbatim>\<open>tool_call.function.name\<close> and
  \<^verbatim>\<open>tool_call.function.arguments\<close> (the raw JSON text). A record's fields are
  constants of the theory, so they carry their owner's name where the source reuses the
  word for a local variable.
\<close>

record tool_call =
  call_id :: string
  function_name :: string
  function_arguments :: string

text \<open>\<^verbatim>\<open>choice.message\<close>: both attributes may be \<^verbatim>\<open>None\<close>.\<close>

record chat_message =
  message_content :: "string option"
  message_tool_calls :: "tool_call list option"

record choice =
  finish_reason :: string
  choice_message :: chat_message

text \<open>
  An entry of the \<^verbatim>\<open>messages\<close> list or of the caller's history: a plain Python value
  (a dict, or anything else JSON-like), the assistant's message object appended as it came
  from the client, or any other object, known only by a tag.
\<close>

datatype msg =
    Plain pyval
  | Assistant chat_message
  | Foreign string

section \<open>The module's surroundings\<close>

text \<open>
  What the module-level name lookup \<^verbatim>\<open>globals().get\<close> can find: the three functions
  the module defines, its class, a callable it imported, or an object that is not callable
  (with its truth value).
\<close>

datatype gobj =
    Fn_push
  | Fn_record_user_details
  | Fn_record_unknown_question
  | Cls_Me
  | External string
  | NonCallable bool

text \<open>
  Everything \<^verbatim>\<open>app.py\<close> uses and does not define is a parameter:
  \<^item> \<open>DEBUG\<close>: the module constant read from the environment;
  \<^item> \<open>run_as_main\<close>: whether the module runs as the script (then line 162 binds \<^verbatim>\<open>me\<close>);
  \<^item> \<open>json_loads\<close>: \<^verbatim>\<open>json.loads\<close>, \<open>None\<close> when it raises \<^verbatim>\<open>JSONDecodeError\<close>;
  \<^item> \<open>json_dumps\<close>: \<^verbatim>\<open>json.dumps\<close> on JSON-like values;
  \<^item> \<open>py_str\<close>: how an f-string renders a value that is not a string;
  \<^item> \<open>requests_post\<close>: \<^verbatim>\<open>requests.post\<close> to the notification endpoint with the given
    message: the HTTP status of the response it returns, or \<open>None\<close> when it raises
    (no connection, timeout);
  \<^item> \<open>create\<close>: \<^verbatim>\<open>client.chat.completions.create\<close> on the model name, the messages
    and the tool catalog, giving the response's \<^verbatim>\<open>choices\<close> or raising;
  \<^item> \<open>external_call\<close>: the outcome of calling an imported callable with keyword arguments;
  \<^item> \<open>me_init\<close>: the error \<^verbatim>\<open>Me.__init__\<close> raises (a missing file, a missing key), if any;
  \<^item> \<open>interp_globals\<close>: the names the interpreter itself puts into the module namespace
    (\<^verbatim>\<open>__name__\<close>, \<^verbatim>\<open>__doc__\<close>, ...).
\<close>

record world =
  DEBUG :: bool
  run_as_main :: bool
  json_loads :: "string \<Rightarrow> pyval option"
  json_dumps :: "pyval \<Rightarrow> string"
  py_str :: "pyval \<Rightarrow> string"
  requests_post :: "pyval \<Rightarrow> nat option"
  create :: "string \<Rightarrow> msg list \<Rightarrow> pyval list \<Rightarrow> py_error + choice list"
  external_call :: "string \<Rightarrow> (string \<times> pyval) list \<Rightarrow> py_error + pyres"
  me_init :: "py_error option"
  interp_globals :: "string \<Rightarrow> gobj option"

text \<open>An f-string field \<^verbatim>\<open>{v}\<close>: a string is inserted as it is.\<close>

definition fmt :: "world \<Rightarrow> pyval \<Rightarrow> string" where
  "fmt w v = (case v of PStr s \<Rightarrow> s | _ \<Rightarrow> py_str w v)"

section \<open>Notification and the tool functions (lines 19-39)\<close>

text \<open>
  \<^verbatim>\<open>push\<close>: the optional debug line, then the post. The response is dropped, whatever
  its status; an exception of \<^verbatim>\<open>requests.post\<close> is not caught. Returns \<^verbatim>\<open>None\<close>.
\<close>

definition push :: "world \<Rightarrow> pyval \<Rightarrow> event list \<Rightarrow> (py_error + pyres) \<times> event list" where
  "push w message log =
     (let log1 = (if DEBUG w then log @ [Print (''[DEBUG] Push: '' @ fmt w message)] else log);
          log2 = log1 @ [Post message]
      in case requests_post w message of
           None \<Rightarrow> (Inl RequestException, log2)
         | Some status \<Rightarrow> (Inr (Json PNone), log2))"

definition record_user_details ::
  "world \<Rightarrow> pyval \<Rightarrow> pyval \<Rightarrow> pyval \<Rightarrow> event list \<Rightarrow> (py_error + pyres) \<times> event list" where
  "record_user_details w email name notes log =
     (case push w (PStr (''Recording '' @ fmt w name @ '' with email '' @ fmt w email
                          @ '' and notes '' @ fmt w notes)) log of
        (Inl e, log') \<Rightarrow> (Inl e, log')
      | (Inr r, log') \<Rightarrow> (Inr (Json (PDict [(''recorded'', PStr ''ok'')])), log'))"

definition record_unknown_question ::
  "world \<Rightarrow> pyval \<Rightarrow> event list \<Rightarrow> (py_error + pyres) \<times> event list" where
  "record_unknown_question w question log =
     (case push w (PStr (''Recording unknown question: '' @ fmt w question)) log of
        (Inl e, log') \<Rightarrow> (Inl e, log')
      | (Inr r, log') \<Rightarrow> (Inr (Json (PDict [(''recorded'', PStr ''ok'')])), log'))"

section \<open>The tool catalog (lines 42-73)\<close>

definition record_user_details_json :: pyval where
  "record_user_details_json = PDict [
     (''name'', PStr ''record_user_details''),
     (''description'', PStr
        ''Use this tool to record that a user is interested in being in touch and provided an email address''),
     (''parameters'', PDict [
        (''type'', PStr ''object''),
        (''properties'', PDict [
           (''email'', PDict [(''type'', PStr ''string''),
                             (''description'', PStr (''The user'' @ [CHR 0x27] @ ''s email address''))]),
           (''name'', PDict [(''type'', PStr ''string''),
                            (''description'', PStr (''The user'' @ [CHR 0x27] @ ''s name (optional)''))]),
           (''notes'', PDict [(''type'', PStr ''string''),
                             (''description'', PStr ''Extra context or message (optional)'')])]),
        (''required'', PList [PStr ''email'']),
        (''additionalProperties'', PBool False)])]"

definition record_unknown_question_json :: pyval where
  "record_unknown_question_json = PDict [
     (''name'', PStr ''record_unknown_question''),
     (''description'', PStr
        (''Use this tool to record any question that couldn'' @ [CHR 0x27] @ ''t be answered'')),
     (''parameters'', PDict [
        (''type'', PStr ''object''),
        (''properties'', PDict [
           (''question'', PDict [(''type'', PStr ''string''),
                                (''description'', PStr ''The question text'')])]),
        (''required'', PList [PStr ''question'']),
        (''additionalProperties'', PBool False)])]"

text \<open>The list literal of lines 70-73.\<close>

definition tools :: "pyval list" where
  "tools =
     [PDict [(''type'', PStr ''function''), (''function'', record_user_details_json)],
      PDict [(''type'', PStr ''function''), (''function'', record_unknown_question_json)]]"

section \<open>The persona (lines 75-107)\<close>

text \<open>
  The attributes \<^verbatim>\<open>__init__\<close> sets: \<^verbatim>\<open>self.name\<close>, \<^verbatim>\<open>self.model_name\<close>,
  \<^verbatim>\<open>self.linkedin\<close> (the text of the PDF's pages) and \<^verbatim>\<open>self.summary\<close>. The client
  object is the world's \<open>create\<close>.
\<close>

record me =
  self_name :: string
  self_model_name :: string
  self_linkedin :: string
  self_summary :: string

text \<open>
  What \<^verbatim>\<open>__init__\<close> builds from the pages of the profile (the text extracted from each,
  if any, appended in order) and the summary file.
\<close>

definition Me :: "string option list \<Rightarrow> string \<Rightarrow> me" where
  "Me pages summary_text =
     \<lparr>self_name = ''Moamen'', self_model_name = ''llama-3.3-70b-versatile'',
      self_linkedin = concat (map (\<lambda>text. case text of Some t \<Rightarrow> t | None \<Rightarrow> []) pages),
      self_summary = summary_text\<rparr>"

definition system_prompt :: "me \<Rightarrow> string" where
  "system_prompt self =
     ''You are acting as '' @ self_name self @ ''. You are answering questions on ''
       @ self_name self @ [CHR 0x27] @ ''s website, ''
     @ ''particularly questions related to '' @ self_name self @ [CHR 0x27]
       @ ''s career, background, skills and experience. ''
     @ ''Your responsibility is to represent '' @ self_name self
       @ '' for interactions on the website as faithfully as possible. ''
     @ ''You are given a summary of '' @ self_name self @ [CHR 0x27]
       @ ''s background and LinkedIn profile which you can use to answer questions. ''
     @ ''Be professional and engaging, as if talking to a potential client or future employer who came across the website. ''
     @ ''If you don'' @ [CHR 0x27]
       @ ''t know the answer to any question, use your record_unknown_question tool to record the question. ''
     @ ''If the user is engaging in discussion, try to steer them towards getting in touch via email; ''
     @ ''ask for their email and record it using your record_user_details tool.'' @ [CHR 0x0A, CHR 0x0A]
     @ ''## Summary:'' @ [CHR 0x0A] @ self_summary self @ [CHR 0x0A, CHR 0x0A]
       @ ''## LinkedIn Profile:'' @ [CHR 0x0A] @ self_linkedin self @ [CHR 0x0A, CHR 0x0A]
     @ ''With this context, please chat with the user, always staying in character as ''
       @ self_name self @ ''.''"

section \<open>Tool dispatch (lines 109-123)\<close>

text \<open>
  The module namespace when \<^verbatim>\<open>chat\<close> runs: every name the module's top level binds
  (imports, \<^verbatim>\<open>DEBUG\<close>, the functions, the schema dicts, \<^verbatim>\<open>tools\<close>, the class, and
  \<^verbatim>\<open>me\<close> under the main guard), then the interpreter's own names.
\<close>

definition module_names :: "world \<Rightarrow> (string \<times> gobj) list" where
  "module_names w =
     [(''os'', NonCallable True), (''json'', NonCallable True), (''logging'', NonCallable True),
      (''requests'', NonCallable True), (''load_dotenv'', External ''load_dotenv''),
      (''OpenAI'', External ''OpenAI''), (''PdfReader'', External ''PdfReader''),
      (''gr'', NonCallable True), (''DEBUG'', NonCallable (DEBUG w)),
      (''push'', Fn_push), (''record_user_details'', Fn_record_user_details),
      (''record_unknown_question'', Fn_record_unknown_question),
      (''record_user_details_json'', NonCallable True),
      (''record_unknown_question_json'', NonCallable True),
      (''tools'', NonCallable True), (''Me'', Cls_Me)]
     @ (if run_as_main w then [(''me'', NonCallable True)] else [])"

definition globals_get :: "world \<Rightarrow> string \<Rightarrow> gobj option" where
  "globals_get w n =
     (case map_of (module_names w) n of Some g \<Rightarrow> Some g | None \<Rightarrow> interp_globals w n)"

text \<open>The truth value \<^verbatim>\<open>if tool\<close> tests: functions and classes are true.\<close>

definition truthy :: "gobj \<Rightarrow> bool" where
  "truthy g = (case g of NonCallable b \<Rightarrow> b | _ \<Rightarrow> True)"

text \<open>
  \<^verbatim>\<open>tool(**arguments)\<close>. The arguments must be a mapping and the object callable; the
  keywords are bound against the signature (\<^verbatim>\<open>push(message)\<close>,
  \<^verbatim>\<open>record_user_details(email, name=..., notes=...)\<close>,
  \<^verbatim>\<open>record_unknown_question(question)\<close>, \<^verbatim>\<open>Me()\<close>); anything else is a
  \<^verbatim>\<open>TypeError\<close>.
\<close>

definition call_tool ::
  "world \<Rightarrow> gobj \<Rightarrow> pyval \<Rightarrow> event list \<Rightarrow> (py_error + pyres) \<times> event list" where
  "call_tool w tool args log =
     (case args of
        PDict kw \<Rightarrow>
          (case tool of
             Fn_push \<Rightarrow>
               (case map_of kw ''message'' of
                  Some m \<Rightarrow>
                    if set (map fst kw) = {''message''} then push w m log
                    else (Inl TypeError, log)
                | None \<Rightarrow> (Inl TypeError, log))
           | Fn_record_user_details \<Rightarrow>
               (case map_of kw ''email'' of
                  Some email \<Rightarrow>
                    if set (map fst kw) \<subseteq> {''email'', ''name'', ''notes''}
                    then record_user_details w email
                           (case map_of kw ''name'' of
                              Some n \<Rightarrow> n | None \<Rightarrow> PStr ''Name not provided'')
                           (case map_of kw ''notes'' of
                              Some n \<Rightarrow> n | None \<Rightarrow> PStr ''not provided'')
                           log
                    else (Inl TypeError, log)
                | None \<Rightarrow> (Inl TypeError, log))
           | Fn_record_unknown_question \<Rightarrow>
               (case map_of kw ''question'' of
                  Some q \<Rightarrow>
                    if set (map fst kw) = {''question''} then record_unknown_question w q log
                    else (Inl TypeError, log)
                | None \<Rightarrow> (Inl TypeError, log))
           | Cls_Me \<Rightarrow>
               (if kw = [] then
                  (case me_init w of
                     Some e \<Rightarrow> (Inl e, log @ [ExternalCall ''Me'' []])
                   | None \<Rightarrow> (Inr Opaque, log @ [ExternalCall ''Me'' []]))
                else (Inl TypeError, log))
           | External f \<Rightarrow> (external_call w f kw, log @ [ExternalCall f kw])
           | NonCallable b \<Rightarrow> (Inl TypeError, log))
      | _ \<Rightarrow> (Inl TypeError, log))"

text \<open>
  One pass of the loop body of \<^verbatim>\<open>handle_tool_call\<close> (lines 112-122): decode the
  arguments, look the name up in the module namespace, call what was found if it is true
  and take \<^verbatim>\<open>{}\<close> otherwise, encode the result, build the tool-role dict.
\<close>

definition dispatch ::
  "world \<Rightarrow> tool_call \<Rightarrow> event list \<Rightarrow> (py_error + pyval) \<times> event list" where
  "dispatch w tc log =
     (case json_loads w (function_arguments tc) of
        None \<Rightarrow> (Inl JSONDecodeError, log)
      | Some args \<Rightarrow>
          (let log1 = (if DEBUG w
                       then log @ [Print (''[DEBUG] Tool called: '' @ function_name tc)]
                       else log);
               called = (case globals_get w (function_name tc) of
                           None \<Rightarrow> (Inr (Json (PDict [])), log1)
                         | Some tool \<Rightarrow>
                             if truthy tool then call_tool w tool args log1
                             else (Inr (Json (PDict [])), log1))
           in case called of
                (Inl e, log2) \<Rightarrow> (Inl e, log2)
              | (Inr Opaque, log2) \<Rightarrow> (Inl TypeError, log2)
              | (Inr (Json v), log2) \<Rightarrow>
                  (Inr (PDict [(''role'', PStr ''tool''),
                               (''content'', PStr (json_dumps w v)),
                               (''tool_call_id'', PStr (call_id tc))]), log2)))"

fun handle_loop ::
  "world \<Rightarrow> tool_call list \<Rightarrow> pyval list \<Rightarrow> event list \<Rightarrow> (py_error + pyval list) \<times> event list" where
  "handle_loop w [] results log = (Inr results, log)"
| "handle_loop w (tc # rest) results log =
     (case dispatch w tc log of
        (Inl e, log') \<Rightarrow> (Inl e, log')
      | (Inr m, log') \<Rightarrow> handle_loop w rest (results @ [m]) log')"

definition handle_tool_call ::
  "world \<Rightarrow> tool_call list \<Rightarrow> event list \<Rightarrow> (py_error + pyval list) \<times> event list" where
  "handle_tool_call w tcs log = handle_loop w tcs [] log"

section \<open>The conversation loop (lines 125-158)\<close>

text \<open>
  Lines 127-133: a dict of the history is replaced by a fresh dict of its \<^verbatim>\<open>"role"\<close> and
  \<^verbatim>\<open>"content"\<close> (a missing key raises \<^verbatim>\<open>KeyError\<close>); any other entry is appended as
  it is.
\<close>

fun clean_loop :: "msg list \<Rightarrow> msg list \<Rightarrow> py_error + msg list" where
  "clean_loop [] clean_history = Inr clean_history"
| "clean_loop (Plain (PDict d) # history) clean_history =
     (case map_of d ''role'' of
        None \<Rightarrow> Inl KeyError
      | Some r \<Rightarrow>
          (case map_of d ''content'' of
             None \<Rightarrow> Inl KeyError
           | Some c \<Rightarrow>
               clean_loop history
                 (clean_history @ [Plain (PDict [(''role'', r), (''content'', c)])])))"
| "clean_loop (m # history) clean_history = clean_loop history (clean_history @ [m])"

text \<open>Lines 126-137: the list the first request carries, or the \<^verbatim>\<open>KeyError\<close> of the cleaning.\<close>

definition initial_messages :: "me \<Rightarrow> string \<Rightarrow> msg list \<Rightarrow> py_error + msg list" where
  "initial_messages self user_message history =
     (case clean_loop history [] of
        Inl e \<Rightarrow> Inl e
      | Inr clean_history \<Rightarrow>
          Inr ([Plain (PDict [(''role'', PStr ''system''), (''content'', PStr (system_prompt self))])]
               @ clean_history
               @ [Plain (PDict [(''role'', PStr ''user''), (''content'', PStr user_message)])]))"

text \<open>
  One pass of the \<^verbatim>\<open>while\<close> body (lines 141-156): the request, \<^verbatim>\<open>choices[0]\<close>, and
  either a round of tool calls, after which the assistant's message and the tool results
  are appended, or the end of the loop with the content to return.
\<close>

datatype step =
    Continue "msg list" "event list"
  | Return "string option" "event list"
  | Raise py_error "event list"

definition chat_step :: "world \<Rightarrow> me \<Rightarrow> msg list \<Rightarrow> event list \<Rightarrow> step" where
  "chat_step w self messages log =
     (case create w (self_model_name self) messages tools of
        Inl e \<Rightarrow> Raise e log
      | Inr [] \<Rightarrow> Raise IndexError log
      | Inr (c # cs) \<Rightarrow>
          if finish_reason c = ''tool_calls'' then
            (case message_tool_calls (choice_message c) of
               None \<Rightarrow> Raise TypeError log
             | Some tcs \<Rightarrow>
                 (case handle_tool_call w tcs log of
                    (Inl e, log') \<Rightarrow> Raise e log'
                  | (Inr tool_results, log') \<Rightarrow>
                      Continue (messages @ [Assistant (choice_message c)] @ map Plain tool_results)
                        log'))
          else Return (message_content (choice_message c)) log)"

text \<open>
  The \<^verbatim>\<open>while not done\<close> loop has no counter: it is a partial function, and \<open>None\<close> is
  the run that never leaves the loop.
\<close>

partial_function (option) chat_loop ::
  "world \<Rightarrow> me \<Rightarrow> msg list \<Rightarrow> event list \<Rightarrow> ((py_error + string option) \<times> event list) option" where
  "chat_loop w self messages log =
     (case chat_step w self messages log of
        Continue messages' log' \<Rightarrow> chat_loop w self messages' log'
      | Return text log' \<Rightarrow> Some (Inr text, log')
      | Raise e log' \<Rightarrow> Some (Inl e, log'))"

definition chat ::
  "world \<Rightarrow> me \<Rightarrow> string \<Rightarrow> msg list \<Rightarrow> event list \<Rightarrow> ((py_error + string option) \<times> event list) option" where
  "chat w self user_message history log =
     (case initial_messages self user_message history of
        Inl e \<Rightarrow> Some (Inl e, log)
      | Inr messages \<Rightarrow> chat_loop w self messages log)"

text \<open>
  The state of the loop after \<open>n\<close> passes of its body, for statements about rounds: a run
  that has returned or raised stays where it is.
\<close>

fun rounds :: "nat \<Rightarrow> world \<Rightarrow> me \<Rightarrow> msg list \<Rightarrow> event list \<Rightarrow> step" where
  "rounds 0 w self messages log = Continue messages log"
| "rounds (Suc n) w self messages log =
     (case chat_step w self messages log of
        Continue messages' log' \<Rightarrow> rounds n w self messages' log'
      | s \<Rightarrow> s)"

section \<open>Notions the statements use\<close>

text \<open>What a finished pass hands back to the caller of \<^verbatim>\<open>chat\<close>; \<open>None\<close> while the loop goes on.\<close>

fun outcome :: "step \<Rightarrow> ((py_error + string option) \<times> event list) option" where
  "outcome (Continue messages log) = None"
| "outcome (Return text log) = Some (Inr text, log)"
| "outcome (Raise e log) = Some (Inl e, log)"

text \<open>\<^verbatim>\<open>d.get(k)\<close> on a value: \<open>None\<close> when it is not a dict or has no such key.\<close>

fun dict_get :: "pyval \<Rightarrow> string \<Rightarrow> pyval option" where
  "dict_get (PDict d) k = map_of d k"
| "dict_get v k = None"

text \<open>
  A tool call with a registered name and well-formed arguments: the name is one of the two
  the catalog declares, and the arguments decode to a dict whose keys the function of that
  name accepts (\<^verbatim>\<open>email\<close> present and nothing beyond \<^verbatim>\<open>email\<close>, \<^verbatim>\<open>name\<close>,
  \<^verbatim>\<open>notes\<close>; or exactly \<^verbatim>\<open>question\<close>).
\<close>

definition well_formed_call :: "world \<Rightarrow> tool_call \<Rightarrow> bool" where
  "well_formed_call w tc =
     (case json_loads w (function_arguments tc) of
        Some (PDict kw) \<Rightarrow>
          (function_name tc = ''record_user_details''
             \<and> ''email'' \<in> set (map fst kw)
             \<and> set (map fst kw) \<subseteq> {''email'', ''name'', ''notes''})
          \<or> (function_name tc = ''record_unknown_question''
             \<and> set (map fst kw) = {''question''})
      | _ \<Rightarrow> False)"

text \<open>The tool-role message that acknowledges a call.\<close>

definition acknowledgment :: "world \<Rightarrow> tool_call \<Rightarrow> pyval" where
  "acknowledgment w tc =
     PDict [(''role'', PStr ''tool''),
            (''content'', PStr (json_dumps w (PDict [(''recorded'', PStr ''ok'')]))),
            (''tool_call_id'', PStr (call_id tc))]"

text \<open>
  The three checks the specification asks of a tool definition: a non-empty name, a
  non-empty description, and a \<^verbatim>\<open>required\<close> list that names declared properties only.
  No function of \<^verbatim>\<open>app.py\<close> computes this.
\<close>

definition schema_checks :: "pyval \<Rightarrow> bool" where
  "schema_checks d =
     (case (dict_get d ''name'', dict_get d ''description'', dict_get d ''parameters'') of
        (Some (PStr n), Some (PStr text), Some ps) \<Rightarrow>
          n \<noteq> [] \<and> text \<noteq> [] \<and>
          (case (dict_get ps ''properties'', dict_get ps ''required'') of
             (Some (PDict props), Some (PList req)) \<Rightarrow>
               list_all (\<lambda>r. case r of PStr k \<Rightarrow> k \<in> set (map fst props) | _ \<Rightarrow> False) req
           | _ \<Rightarrow> False)
      | _ \<Rightarrow> False)"

text \<open>A history entry the cleaning accepts: not a dict, or a dict with both keys.\<close>

fun has_role_and_content :: "msg \<Rightarrow> bool" where
  "has_role_and_content (Plain (PDict d)) = (map_of d ''role'' \<noteq> None \<and> map_of d ''content'' \<noteq> None)"
| "has_role_and_content m = True"

text \<open>A history entry the cleaning leaves as it is: not a dict, or a dict of exactly the two keys.\<close>

fun only_role_and_content :: "msg \<Rightarrow> bool" where
  "only_role_and_content (Plain (PDict [(k1, r), (k2, c)])) = (k1 = ''role'' \<and> k2 = ''content'')"
| "only_role_and_content (Plain (PDict d)) = False"
| "only_role_and_content m = True"

section \<open>Worlds for the worked examples\<close>

text \<open>
  A world for the examples. Its decoder is tabulated on the payloads the examples send and
  reports any other text as undecodable (among them \<^verbatim>\<open>{\<close>, which \<^verbatim>\<open>json.loads\<close> rejects
  too); its encoder is tabulated on the three results the module itself can produce
  (\<^verbatim>\<open>{}\<close>, \<^verbatim>\<open>{"recorded": "ok"}\<close>, \<^verbatim>\<open>None\<close>); imported callables raise; the
  notification endpoint answers 200; the interpreter binds \<^verbatim>\<open>__name__\<close> to a string; the
  rendering of values that are not strings is left empty (no example formats one). The
  model client is set per example.
\<close>

definition sample_loads :: "string \<Rightarrow> pyval option" where
  "sample_loads s =
     (if s = ''{}'' then Some (PDict [])
      else if s = ''{\"email\":\"a@b.com\"}'' then Some (PDict [(''email'', PStr ''a@b.com'')])
      else if s = ''{\"question\": \"Do you ski?\"}''
        then Some (PDict [(''question'', PStr ''Do you ski?'')])
      else if s = ''{\"message\": \"spam\"}'' then Some (PDict [(''message'', PStr ''spam'')])
      else None)"

definition sample_dumps :: "pyval \<Rightarrow> string" where
  "sample_dumps v =
     (if v = PDict [] then ''{}''
      else if v = PDict [(''recorded'', PStr ''ok'')] then ''{\"recorded\": \"ok\"}''
      else if v = PNone then ''null''
      else [])"

definition sample_world ::
  "(string \<Rightarrow> msg list \<Rightarrow> pyval list \<Rightarrow> py_error + choice list) \<Rightarrow> world" where
  "sample_world client =
     \<lparr>DEBUG = False, run_as_main = True,
      json_loads = sample_loads, json_dumps = sample_dumps,
      py_str = (\<lambda>v. []),
      requests_post = (\<lambda>m. Some 200),
      create = client,
      external_call = (\<lambda>f kw. Inl ExternalError),
      me_init = None,
      interp_globals = (\<lambda>n. if n = ''__name__'' then Some (NonCallable True) else None)\<rparr>"

text \<open>The same world with the notification endpoint out of reach.\<close>

definition offline_world ::
  "(string \<Rightarrow> msg list \<Rightarrow> pyval list \<Rightarrow> py_error + choice list) \<Rightarrow> world" where
  "offline_world client = (sample_world client)\<lparr>requests_post := (\<lambda>m. None)\<rparr>"


text \<open>
  Model clients for the examples. \<open>answers text\<close> ends the turn at once. \<open>asks tcs text\<close>
  requests the tool calls \<open>tcs\<close> while the conversation holds no assistant message, and
  answers \<open>text\<close> after that. \<open>keeps_asking tc n\<close> requests \<open>tc\<close> in each of the first \<open>n\<close>
  rounds and then answers; \<open>always_asks tc\<close> never answers.
\<close>

definition final_choice :: "string \<Rightarrow> choice" where
  "final_choice text =
     \<lparr>finish_reason = ''stop'',
      choice_message = \<lparr>message_content = Some text, message_tool_calls = None\<rparr>\<rparr>"

definition tool_choice :: "tool_call list \<Rightarrow> choice" where
  "tool_choice tcs =
     \<lparr>finish_reason = ''tool_calls'',
      choice_message = \<lparr>message_content = None, message_tool_calls = Some tcs\<rparr>\<rparr>"

fun is_assistant :: "msg \<Rightarrow> bool" where
  "is_assistant (Assistant m) = True"
| "is_assistant m = False"

definition answers :: "string \<Rightarrow> string \<Rightarrow> msg list \<Rightarrow> pyval list \<Rightarrow> py_error + choice list" where
  "answers text model messages catalog = Inr [final_choice text]"

definition keeps_asking ::
  "tool_call \<Rightarrow> nat \<Rightarrow> string \<Rightarrow> string \<Rightarrow> msg list \<Rightarrow> pyval list \<Rightarrow> py_error + choice list" where
  "keeps_asking tc n text model messages catalog =
     (if length (filter is_assistant messages) < n then Inr [tool_choice [tc]]
      else Inr [final_choice text])"

definition asks ::
  "tool_call list \<Rightarrow> string \<Rightarrow> string \<Rightarrow> msg list \<Rightarrow> pyval list \<Rightarrow> py_error + choice list" where
  "asks tcs text model messages catalog =
     (if filter is_assistant messages = [] then Inr [tool_choice tcs]
      else Inr [final_choice text])"

definition always_asks ::
  "tool_call \<Rightarrow> string \<Rightarrow> msg list \<Rightarrow> pyval list \<Rightarrow> py_error + choice list" where
  "always_asks tc model messages catalog = Inr [tool_choice [tc]]"

definition example_call :: "string \<Rightarrow> string \<Rightarrow> string \<Rightarrow> tool_call" where
  "example_call i n a = \<lparr>call_id = i, function_name = n, function_arguments = a\<rparr>"

definition ski_call :: tool_call where
  "ski_call = example_call ''call_1'' ''record_unknown_question'' ''{\"question\": \"Do you ski?\"}''"

definition email_call :: tool_call where
  "email_call = example_call ''call_2'' ''record_user_details'' ''{\"email\":\"a@b.com\"}''"

section \<open>Facts about tool dispatch\<close>

lemma dispatch_message:
  assumes "dispatch w tc log = (Inr m, log')"
  shows "\<exists>text. m = PDict [(''role'', PStr ''tool''), (''content'', PStr text),
                          (''tool_call_id'', PStr (call_id tc))]"
  using assms
  by (auto simp: dispatch_def Let_def
      split: option.splits prod.splits sum.splits pyres.splits if_splits)

text \<open>The accumulator of the loop only collects: the run from \<open>[]\<close> decides everything.\<close>

lemma handle_loop_acc:
  "handle_loop w tcs results log =
     (case handle_loop w tcs [] log of
        (Inl e, log') \<Rightarrow> (Inl e, log')
      | (Inr ms, log') \<Rightarrow> (Inr (results @ ms), log'))"
proof (induction tcs arbitrary: results log)
  case Nil
  show ?case by simp
next
  case (Cons tc tcs)
  show ?case
  proof (cases "dispatch w tc log")
    case (Pair r l1)
    show ?thesis
    proof (cases r)
      case (Inl e)
      with Pair show ?thesis by simp
    next
      case (Inr m)
      have a: "handle_loop w (tc # tcs) results log = handle_loop w tcs (results @ [m]) l1"
        using Pair Inr by simp
      have b: "handle_loop w (tc # tcs) [] log = handle_loop w tcs [m] l1"
        using Pair Inr by simp
      have c: "handle_loop w tcs (results @ [m]) l1 =
                 (case handle_loop w tcs [] l1 of
                    (Inl e, log') \<Rightarrow> (Inl e, log')
                  | (Inr ms, log') \<Rightarrow> (Inr ((results @ [m]) @ ms), log'))"
        by (rule Cons.IH)
      have d: "handle_loop w tcs [m] l1 =
                 (case handle_loop w tcs [] l1 of
                    (Inl e, log') \<Rightarrow> (Inl e, log')
                  | (Inr ms, log') \<Rightarrow> (Inr ([m] @ ms), log'))"
        by (rule Cons.IH)
      show ?thesis
        by (simp only: a b c d) (simp split: prod.splits sum.splits)
    qed
  qed
qed

lemma handle_tool_call_Nil: "handle_tool_call w [] log = (Inr [], log)"
  by (simp add: handle_tool_call_def)

lemma handle_tool_call_Cons:
  "handle_tool_call w (tc # tcs) log =
     (case dispatch w tc log of
        (Inl e, log') \<Rightarrow> (Inl e, log')
      | (Inr m, log') \<Rightarrow>
          (case handle_tool_call w tcs log' of
             (Inl e, log'') \<Rightarrow> (Inl e, log'')
           | (Inr ms, log'') \<Rightarrow> (Inr (m # ms), log'')))"
  by (simp add: handle_tool_call_def handle_loop_acc[of w tcs "[_]"] split: prod.splits sum.splits)

lemma handle_tool_call_append:
  "handle_tool_call w (xs @ ys) log =
     (case handle_tool_call w xs log of
        (Inl e, log') \<Rightarrow> (Inl e, log')
      | (Inr ms, log') \<Rightarrow>
          (case handle_tool_call w ys log' of
             (Inl e, log'') \<Rightarrow> (Inl e, log'')
           | (Inr ms', log'') \<Rightarrow> (Inr (ms @ ms'), log'')))"
  by (induction xs arbitrary: log)
     (auto simp: handle_tool_call_Nil handle_tool_call_Cons split: prod.splits sum.splits)

section \<open>Facts about the loop\<close>

lemma chat_loop_step:
  "chat_loop w self messages log =
     (case chat_step w self messages log of
        Continue messages' log' \<Rightarrow> chat_loop w self messages' log'
      | s \<Rightarrow> outcome s)"
  by (subst chat_loop.simps) (simp split: step.splits)

lemma chat_loop_rounds:
  "rounds n w self messages log = Continue messages' log' \<Longrightarrow>
     chat_loop w self messages log = chat_loop w self messages' log'"
proof (induction n arbitrary: messages log)
  case 0
  then show ?case by simp
next
  case (Suc n)
  then show ?case
    by (subst chat_loop_step) (auto split: step.splits)
qed

lemma chat_loop_of_rounds:
  "outcome (rounds n w self messages log) = Some r \<Longrightarrow> chat_loop w self messages log = Some r"
proof (induction n arbitrary: messages log)
  case 0
  then show ?case by simp
next
  case (Suc n)
  then show ?case
    by (subst chat_loop_step) (auto split: step.splits)
qed

text \<open>A run that ends has ended after some number of passes.\<close>

lemma rounds_of_chat_loop:
  assumes run: "chat_loop w self messages log = Some r"
  shows "\<exists>n. outcome (rounds n w self messages log) = Some r"
proof (rule chat_loop.raw_induct
    [where P = "\<lambda>w self messages log r. \<exists>n. outcome (rounds n w self messages log) = Some r",
     OF _ run], goal_cases)
  case (1 loop w self messages log r)
  show ?case
  proof (cases "chat_step w self messages log")
    case (Continue m' l')
    with 1(2) have "loop w self m' l' = Some r" by simp
    then obtain n where "outcome (rounds n w self m' l') = Some r"
      using 1(1) by blast
    with Continue have "outcome (rounds (Suc n) w self messages log) = Some r" by simp
    then show ?thesis ..
  next
    case (Return t l')
    with 1(2) have "outcome (rounds (Suc 0) w self messages log) = Some r" by simp
    then show ?thesis ..
  next
    case (Raise e l')
    with 1(2) have "outcome (rounds (Suc 0) w self messages log) = Some r" by simp
    then show ?thesis ..
  qed
qed

lemma chat_loop_None:
  assumes "\<And>n. outcome (rounds n w self messages log) = None"
  shows "chat_loop w self messages log = None"
proof (cases "chat_loop w self messages log")
  case None
  then show ?thesis .
next
  case (Some r)
  from rounds_of_chat_loop[OF Some] assms show ?thesis by auto
qed

lemma rounds_last:
  "rounds (Suc n) w self messages log =
     (case rounds n w self messages log of
        Continue messages' log' \<Rightarrow> chat_step w self messages' log'
      | s \<Rightarrow> s)"
proof (induction n arbitrary: messages log)
  case 0
  show ?case by (simp split: step.splits)
next
  case (Suc n)
  show ?case
  proof (cases "chat_step w self messages log")
    case (Continue m' l')
    have "rounds (Suc (Suc n)) w self messages log = rounds (Suc n) w self m' l'"
      using Continue by simp
    also have "\<dots> = (case rounds n w self m' l' of
        Continue messages' log' \<Rightarrow> chat_step w self messages' log' | s \<Rightarrow> s)"
      by (rule Suc.IH)
    also have "rounds n w self m' l' = rounds (Suc n) w self messages log"
      using Continue by simp
    finally show ?thesis .
  next
    case (Return t l')
    then show ?thesis by simp
  next
    case (Raise e l')
    then show ?thesis by simp
  qed
qed

lemma chat_step_Return_iff:
  "chat_step w self messages log = Return text log' \<longleftrightarrow>
     (\<exists>c cs. create w (self_model_name self) messages tools = Inr (c # cs)
        \<and> finish_reason c \<noteq> ''tool_calls''
        \<and> message_content (choice_message c) = text \<and> log' = log)"
  by (auto simp: chat_step_def split: sum.splits list.splits option.splits prod.splits if_splits)

section \<open>The system instruction\<close>

text \<open>
  Claim C9. \<^verbatim>\<open>system_prompt\<close> is deterministic: it reads \<^verbatim>\<open>self.name\<close>,
  \<^verbatim>\<open>self.summary\<close> and \<^verbatim>\<open>self.linkedin\<close> and nothing else, so two personas that agree
  on these three (whatever their other attributes) get the same string, and a second call
  on the same persona repeats the first. The string holds the summary and the profile text
  verbatim, each after its heading.
\<close>

theorem system_prompt_deterministic:
  "(self_name a = self_name b \<and> self_summary a = self_summary b \<and> self_linkedin a = self_linkedin b
      \<longrightarrow> system_prompt a = system_prompt b)
   \<and> (\<exists>pre post. system_prompt a =
         pre @ ''## Summary:'' @ [CHR 0x0A] @ self_summary a @ [CHR 0x0A, CHR 0x0A]
             @ ''## LinkedIn Profile:'' @ [CHR 0x0A] @ self_linkedin a @ post)"
proof
  show "self_name a = self_name b \<and> self_summary a = self_summary b \<and> self_linkedin a = self_linkedin b
      \<longrightarrow> system_prompt a = system_prompt b"
    by (simp add: system_prompt_def)
next
  let ?pre = "''You are acting as '' @ self_name a @ ''. You are answering questions on ''
       @ self_name a @ [CHR 0x27] @ ''s website, ''
     @ ''particularly questions related to '' @ self_name a @ [CHR 0x27]
       @ ''s career, background, skills and experience. ''
     @ ''Your responsibility is to represent '' @ self_name a
       @ '' for interactions on the website as faithfully as possible. ''
     @ ''You are given a summary of '' @ self_name a @ [CHR 0x27]
       @ ''s background and LinkedIn profile which you can use to answer questions. ''
     @ ''Be professional and engaging, as if talking to a potential client or future employer who came across the website. ''
     @ ''If you don'' @ [CHR 0x27]
       @ ''t know the answer to any question, use your record_unknown_question tool to record the question. ''
     @ ''If the user is engaging in discussion, try to steer them towards getting in touch via email; ''
     @ ''ask for their email and record it using your record_user_details tool.'' @ [CHR 0x0A, CHR 0x0A]"
  let ?post = "[CHR 0x0A, CHR 0x0A]
     @ ''With this context, please chat with the user, always staying in character as ''
     @ self_name a @ ''.''"
  have "system_prompt a =
         ?pre @ ''## Summary:'' @ [CHR 0x0A] @ self_summary a @ [CHR 0x0A, CHR 0x0A]
             @ ''## LinkedIn Profile:'' @ [CHR 0x0A] @ self_linkedin a @ ?post"
    unfolding system_prompt_def by (simp only: append_assoc)
  then show "\<exists>pre post. system_prompt a =
         pre @ ''## Summary:'' @ [CHR 0x0A] @ self_summary a @ [CHR 0x0A, CHR 0x0A]
             @ ''## LinkedIn Profile:'' @ [CHR 0x0A] @ self_linkedin a @ post"
    by blast
qed

theorem system_prompt_deterministic_witness:
  "system_prompt (Me [Some ''Engineer '', None, Some ''in Cairo.''] ''I build things.'')
     = system_prompt ((Me [Some ''Engineer '', None, Some ''in Cairo.''] ''I build things.'')\<lparr>self_model_name := ''another-model''\<rparr>)
   \<and> (\<exists>pre post. system_prompt (Me [Some ''Engineer '', None, Some ''in Cairo.''] ''I build things.'') =
         pre @ ''## Summary:'' @ [CHR 0x0A] @ ''I build things.'' @ [CHR 0x0A, CHR 0x0A]
             @ ''## LinkedIn Profile:'' @ [CHR 0x0A] @ ''Engineer in Cairo.'' @ post)"
proof -
  let ?a = "Me [Some ''Engineer '', None, Some ''in Cairo.''] ''I build things.''"
  let ?b = "?a\<lparr>self_model_name := ''another-model''\<rparr>"
  have same: "self_name ?a = self_name ?b \<and> self_summary ?a = self_summary ?b
      \<and> self_linkedin ?a = self_linkedin ?b"
    by simp
  have s: "self_summary ?a = ''I build things.''" and l: "self_linkedin ?a = ''Engineer in Cairo.''"
    by (simp_all add: Me_def)
  from system_prompt_deterministic[of ?a ?b] same
  have "system_prompt ?a = system_prompt ?b
    \<and> (\<exists>pre post. system_prompt ?a =
         pre @ ''## Summary:'' @ [CHR 0x0A] @ self_summary ?a @ [CHR 0x0A, CHR 0x0A]
             @ ''## LinkedIn Profile:'' @ [CHR 0x0A] @ self_linkedin ?a @ post)"
    by blast
  then show ?thesis unfolding s l .
qed

section \<open>Dispatch by name\<close>

text \<open>
  Claim C3. Dispatch should call the two declared tool functions only. It does not: the
  name is looked up in the whole module namespace, so a tool call named \<^verbatim>\<open>push\<close> (which
  the catalog does not declare) runs \<^verbatim>\<open>push\<close> on the model's own text: the notification
  is posted and the tool message carries \<^verbatim>\<open>null\<close>, what \<^verbatim>\<open>push\<close> returns.
\<close>

theorem push_is_dispatched_by_name:
  "handle_tool_call (sample_world (answers ''Hello''))
     [example_call ''call_1'' ''push'' ''{\"message\": \"spam\"}''] []
   = (Inr [PDict [(''role'', PStr ''tool''), (''content'', PStr ''null''),
                  (''tool_call_id'', PStr ''call_1'')]],
      [Post (PStr ''spam'')])"
  by (simp add: handle_tool_call_def dispatch_def sample_world_def sample_loads_def
      sample_dumps_def example_call_def globals_get_def module_names_def truthy_def
      call_tool_def push_def)

section \<open>More facts about dispatch\<close>

lemma chat_step_tool_round:
  assumes "create w (self_model_name self) messages tools = Inr (c # cs)"
      and "finish_reason c = ''tool_calls''"
      and "message_tool_calls (choice_message c) = Some tcs"
  shows "chat_step w self messages log =
     (case handle_tool_call w tcs log of
        (Inl e, log') \<Rightarrow> Raise e log'
      | (Inr ms, log') \<Rightarrow> Continue (messages @ [Assistant (choice_message c)] @ map Plain ms) log')"
  using assms by (simp add: chat_step_def split: prod.splits sum.splits)

lemma dispatch_undecodable:
  "json_loads w (function_arguments tc) = None \<Longrightarrow> dispatch w tc log = (Inl JSONDecodeError, log)"
  by (simp add: dispatch_def)

lemma globals_get_tools:
  "globals_get w ''record_user_details'' = Some Fn_record_user_details"
  "globals_get w ''record_unknown_question'' = Some Fn_record_unknown_question"
  "globals_get w ''push'' = Some Fn_push"
  by (simp_all add: globals_get_def module_names_def)

lemma push_result:
  "push w m log =
     (case requests_post w m of
        None \<Rightarrow> Inl RequestException
      | Some status \<Rightarrow> Inr (Json PNone),
      (if DEBUG w then log @ [Print (''[DEBUG] Push: '' @ fmt w m)] else log) @ [Post m])"
  by (simp add: push_def Let_def split: option.splits)

lemma dispatch_well_formed:
  assumes "well_formed_call w tc"
  shows "\<exists>m log'. dispatch w tc log =
           (case requests_post w (PStr m) of
              None \<Rightarrow> Inl RequestException
            | Some status \<Rightarrow> Inr (acknowledgment w tc), log')"
proof -
  from assms obtain kw where kw: "json_loads w (function_arguments tc) = Some (PDict kw)"
    by (auto simp: well_formed_call_def split: option.splits pyval.splits)
  from assms kw consider
      (details) "function_name tc = ''record_user_details''" "''email'' \<in> set (map fst kw)"
                "set (map fst kw) \<subseteq> {''email'', ''name'', ''notes''}"
    | (question) "function_name tc = ''record_unknown_question''" "set (map fst kw) = {''question''}"
    by (auto simp: well_formed_call_def)
  then show ?thesis
  proof cases
    case details
    from details(2) obtain email where e: "map_of kw ''email'' = Some email"
      by (metis map_of_eq_None_iff not_Some_eq set_map)
    show ?thesis
      using kw details e
      by (auto simp: dispatch_def Let_def globals_get_tools truthy_def call_tool_def
          record_user_details_def push_result acknowledgment_def split: option.splits)
  next
    case question
    then have "''question'' \<in> set (map fst kw)" by simp
    then obtain q where q: "map_of kw ''question'' = Some q"
      by (metis map_of_eq_None_iff not_Some_eq set_map)
    show ?thesis
      using kw question q
      by (auto simp: dispatch_def Let_def globals_get_tools truthy_def call_tool_def
          record_unknown_question_def push_result acknowledgment_def split: option.splits)
  qed
qed


lemma dispatch_answered:
  assumes "well_formed_call w tc" and "\<forall>m. requests_post w m \<noteq> None"
  shows "\<exists>log'. dispatch w tc log = (Inr (acknowledgment w tc), log')"
proof -
  from dispatch_well_formed[OF assms(1), of log] obtain m log' where
    d: "dispatch w tc log =
           (case requests_post w (PStr m) of
              None \<Rightarrow> Inl RequestException
            | Some status \<Rightarrow> Inr (acknowledgment w tc), log')"
    by blast
  from assms(2) obtain status where "requests_post w (PStr m) = Some status" by auto
  with d show ?thesis by simp
qed

lemma dispatch_unreachable:
  assumes "well_formed_call w tc" and "\<forall>m. requests_post w m = None"
  shows "\<exists>log'. dispatch w tc log = (Inl RequestException, log')"
proof -
  from dispatch_well_formed[OF assms(1), of log] obtain m log' where
    d: "dispatch w tc log =
           (case requests_post w (PStr m) of
              None \<Rightarrow> Inl RequestException
            | Some status \<Rightarrow> Inr (acknowledgment w tc), log')"
    by blast
  with assms(2) show ?thesis by simp
qed

lemma handle_tool_call_answered:
  assumes "list_all (well_formed_call w) tcs" and "\<forall>m. requests_post w m \<noteq> None"
  shows "\<exists>log'. handle_tool_call w tcs log = (Inr (map (acknowledgment w) tcs), log')"
  using assms(1)
proof (induction tcs arbitrary: log)
  case Nil
  show ?case by (simp add: handle_tool_call_Nil)
next
  case (Cons tc tcs)
  from Cons.prems have wf: "well_formed_call w tc" and rest: "list_all (well_formed_call w) tcs"
    by simp_all
  from dispatch_answered[OF wf assms(2), of log] obtain l1 where
    d: "dispatch w tc log = (Inr (acknowledgment w tc), l1)" by blast
  from Cons.IH[OF rest, of l1] obtain l2 where
    h: "handle_tool_call w tcs l1 = (Inr (map (acknowledgment w) tcs), l2)" by blast
  have "handle_tool_call w (tc # tcs) log = (Inr (map (acknowledgment w) (tc # tcs)), l2)"
    by (simp add: handle_tool_call_Cons d h)
  then show ?case ..
qed

lemma handle_tool_call_ids:
  "handle_tool_call w tcs log = (Inr ms, log') \<Longrightarrow>
     map (\<lambda>m. dict_get m ''tool_call_id'') ms = map (\<lambda>tc. Some (PStr (call_id tc))) tcs
     \<and> map (\<lambda>m. dict_get m ''role'') ms = map (\<lambda>tc. Some (PStr ''tool'')) tcs"
proof (induction tcs arbitrary: log ms)
  case Nil
  then show ?case by (simp add: handle_tool_call_Nil)
next
  case (Cons tc tcs)
  from Cons.prems obtain m l1 ms' where d: "dispatch w tc log = (Inr m, l1)"
    and rest: "handle_tool_call w tcs l1 = (Inr ms', log')" and ms: "ms = m # ms'"
    unfolding handle_tool_call_Cons by (auto split: prod.splits sum.splits)
  from dispatch_message[OF d] Cons.IH[OF rest] ms show ?case by auto
qed

section \<open>Undecodable arguments\<close>

text \<open>
  Claim C1, as amended. The claim has the decode failure caught and turned into a tool-role
  error message; \<^verbatim>\<open>handle_tool_call\<close> has no handler. When the arguments of a tool call
  are not valid JSON and the calls before it in the same response went through,
  \<^verbatim>\<open>handle_tool_call\<close> raises \<^verbatim>\<open>JSONDecodeError\<close> (the effects of the earlier calls have
  happened, no tool message is kept), and a turn whose model response holds that list ends
  with the exception: \<^verbatim>\<open>chat\<close> propagates it.
\<close>

theorem undecodable_arguments_abort_the_turn:
  assumes "json_loads w (function_arguments tc) = None"
      and "handle_tool_call w before log = (Inr ms, log1)"
  shows "handle_tool_call w (before @ tc # after) log = (Inl JSONDecodeError, log1)
     \<and> (create w (self_model_name self) messages tools = Inr (c # cs)
          \<and> finish_reason c = ''tool_calls''
          \<and> message_tool_calls (choice_message c) = Some (before @ tc # after)
        \<longrightarrow> chat_step w self messages log = Raise JSONDecodeError log1
          \<and> chat_loop w self messages log = Some (Inl JSONDecodeError, log1))"
proof -
  have h: "handle_tool_call w (before @ tc # after) log = (Inl JSONDecodeError, log1)"
    by (simp add: handle_tool_call_append assms(2) handle_tool_call_Cons
        dispatch_undecodable[OF assms(1)])
  show ?thesis
  proof (intro conjI impI)
    show "handle_tool_call w (before @ tc # after) log = (Inl JSONDecodeError, log1)" by (rule h)
  next
    assume a: "create w (self_model_name self) messages tools = Inr (c # cs)
          \<and> finish_reason c = ''tool_calls''
          \<and> message_tool_calls (choice_message c) = Some (before @ tc # after)"
    then show s: "chat_step w self messages log = Raise JSONDecodeError log1"
      by (simp add: chat_step_tool_round[of w self messages c cs "before @ tc # after"] h)
    then show "chat_loop w self messages log = Some (Inl JSONDecodeError, log1)"
      by (subst chat_loop_step) simp
  qed
qed

text \<open>The example worlds, field by field.\<close>

lemma sample_fields:
  "DEBUG (sample_world client) = False"
  "json_loads (sample_world client) = sample_loads"
  "json_dumps (sample_world client) = sample_dumps"
  "requests_post (sample_world client) = (\<lambda>m. Some 200)"
  "create (sample_world client) = client"
  "DEBUG (offline_world client) = False"
  "json_loads (offline_world client) = sample_loads"
  "json_dumps (offline_world client) = sample_dumps"
  "requests_post (offline_world client) = (\<lambda>m. None)"
  "create (offline_world client) = client"
  by (simp_all add: sample_world_def offline_world_def)

lemma email_call_answered:
  "handle_tool_call (sample_world client) [email_call] [] =
     (Inr [PDict [(''role'', PStr ''tool''), (''content'', PStr ''{\"recorded\": \"ok\"}''),
                  (''tool_call_id'', PStr ''call_2'')]],
      [Post (PStr ''Recording Name not provided with email a@b.com and notes not provided'')])"
  by (simp add: handle_tool_call_def dispatch_def sample_fields sample_loads_def
      sample_dumps_def email_call_def example_call_def globals_get_tools truthy_def
      call_tool_def record_user_details_def push_def fmt_def)

theorem undecodable_arguments_abort_the_turn_witness:
  "handle_tool_call (sample_world (asks [email_call, example_call ''call_3'' ''record_unknown_question'' ''{''] ''Thanks''))
      ([email_call] @ example_call ''call_3'' ''record_unknown_question'' ''{'' # []) []
     = (Inl JSONDecodeError,
        [Post (PStr ''Recording Name not provided with email a@b.com and notes not provided'')])
   \<and> chat_loop (sample_world (asks [email_call, example_call ''call_3'' ''record_unknown_question'' ''{''] ''Thanks''))
        (Me [Some ''Profile''] ''Summary'') [] []
     = Some (Inl JSONDecodeError,
        [Post (PStr ''Recording Name not provided with email a@b.com and notes not provided'')])"
proof -
  let ?bad = "example_call ''call_3'' ''record_unknown_question'' ''{''"
  let ?w = "sample_world (asks [email_call, ?bad] ''Thanks'')"
  have a: "json_loads ?w (function_arguments ?bad) = None"
    by (simp add: sample_fields sample_loads_def example_call_def)
  have c: "create ?w (self_model_name (Me [Some ''Profile''] ''Summary'')) [] tools = Inr (tool_choice [email_call, ?bad] # [])
          \<and> finish_reason (tool_choice [email_call, ?bad]) = ''tool_calls''
          \<and> message_tool_calls (choice_message (tool_choice [email_call, ?bad])) = Some ([email_call] @ ?bad # [])"
    by (simp add: sample_fields asks_def tool_choice_def)
  from undecodable_arguments_abort_the_turn[OF a email_call_answered, of "[]" "Me [Some ''Profile''] ''Summary''" "[]"
      "tool_choice [email_call, ?bad]" "[]"] c
  show ?thesis by blast
qed

text \<open>
  The claim fails on a single call whose arguments are the text \<^verbatim>\<open>{\<close>: the turn ends
  with the decode error instead of an answer.
\<close>

theorem undecodable_arguments_counterexample:
  "chat (sample_world (asks [example_call ''call_1'' ''record_user_details'' ''{''] ''Thanks''))
        (Me [Some ''Profile''] ''Summary'') ''My email is a@b.com'' [] []
     = Some (Inl JSONDecodeError, [])"
  by (simp add: chat_def initial_messages_def chat_loop_step chat_step_def sample_fields asks_def
      tool_choice_def handle_tool_call_def dispatch_def sample_loads_def example_call_def)

section \<open>Unknown tool names\<close>

text \<open>
  Claim C2, as amended. For a tool call whose arguments decode and whose name the module
  namespace does not bind (or binds to a false value), dispatch does not raise: line 117
  takes the empty dict as the result, so the tool-role message carries the encoding of
  \<^verbatim>\<open>{}\<close>, with the call's id. No error is encoded. A response holding that one call is
  followed by the next pass of the loop, on the messages with the assistant message and
  this tool message appended.
\<close>

theorem unknown_tool_gets_the_empty_object:
  assumes "json_loads w (function_arguments tc) = Some args"
      and "case globals_get w (function_name tc) of None \<Rightarrow> True | Some g \<Rightarrow> \<not> truthy g"
  shows "dispatch w tc log =
           (Inr (PDict [(''role'', PStr ''tool''),
                        (''content'', PStr (json_dumps w (PDict []))),
                        (''tool_call_id'', PStr (call_id tc))]),
            if DEBUG w then log @ [Print (''[DEBUG] Tool called: '' @ function_name tc)] else log)
     \<and> (create w (self_model_name self) messages tools = Inr (c # cs)
          \<and> finish_reason c = ''tool_calls''
          \<and> message_tool_calls (choice_message c) = Some [tc]
        \<longrightarrow> chat_step w self messages log =
              Continue (messages @ [Assistant (choice_message c),
                          Plain (PDict [(''role'', PStr ''tool''),
                                        (''content'', PStr (json_dumps w (PDict []))),
                                        (''tool_call_id'', PStr (call_id tc))])])
                (if DEBUG w then log @ [Print (''[DEBUG] Tool called: '' @ function_name tc)]
                 else log))"
proof -
  have d: "dispatch w tc log =
           (Inr (PDict [(''role'', PStr ''tool''),
                        (''content'', PStr (json_dumps w (PDict []))),
                        (''tool_call_id'', PStr (call_id tc))]),
            if DEBUG w then log @ [Print (''[DEBUG] Tool called: '' @ function_name tc)] else log)"
    using assms by (auto simp: dispatch_def Let_def split: option.splits)
  show ?thesis
  proof (intro conjI impI)
    show "dispatch w tc log =
           (Inr (PDict [(''role'', PStr ''tool''),
                        (''content'', PStr (json_dumps w (PDict []))),
                        (''tool_call_id'', PStr (call_id tc))]),
            if DEBUG w then log @ [Print (''[DEBUG] Tool called: '' @ function_name tc)] else log)"
      by (rule d)
  next
    assume "create w (self_model_name self) messages tools = Inr (c # cs)
          \<and> finish_reason c = ''tool_calls''
          \<and> message_tool_calls (choice_message c) = Some [tc]"
    then show "chat_step w self messages log =
              Continue (messages @ [Assistant (choice_message c),
                          Plain (PDict [(''role'', PStr ''tool''),
                                        (''content'', PStr (json_dumps w (PDict []))),
                                        (''tool_call_id'', PStr (call_id tc))])])
                (if DEBUG w then log @ [Print (''[DEBUG] Tool called: '' @ function_name tc)]
                 else log)"
      by (simp add: chat_step_tool_round[of w self messages c cs "[tc]"]
          handle_tool_call_Cons handle_tool_call_Nil d)
  qed
qed

theorem unknown_tool_gets_the_empty_object_witness:
  "dispatch (sample_world (asks [example_call ''call_1'' ''delete_everything'' ''{}''] ''Done''))
      (example_call ''call_1'' ''delete_everything'' ''{}'') []
     = (Inr (PDict [(''role'', PStr ''tool''), (''content'', PStr ''{}''),
                    (''tool_call_id'', PStr ''call_1'')]), [])
   \<and> chat_step (sample_world (asks [example_call ''call_1'' ''delete_everything'' ''{}''] ''Done''))
        (Me [Some ''Profile''] ''Summary'') [] []
     = Continue [Assistant (choice_message (tool_choice [example_call ''call_1'' ''delete_everything'' ''{}''])),
                 Plain (PDict [(''role'', PStr ''tool''), (''content'', PStr ''{}''),
                               (''tool_call_id'', PStr ''call_1'')])] []"
proof -
  let ?tc = "example_call ''call_1'' ''delete_everything'' ''{}''"
  let ?w = "sample_world (asks [?tc] ''Done'')"
  have a: "json_loads ?w (function_arguments ?tc) = Some (PDict [])"
    by (simp add: sample_fields sample_loads_def example_call_def)
  have b: "case globals_get ?w (function_name ?tc) of None \<Rightarrow> True | Some g \<Rightarrow> \<not> truthy g"
    by (simp add: globals_get_def module_names_def sample_world_def example_call_def)
  have c: "create ?w (self_model_name (Me [Some ''Profile''] ''Summary'')) [] tools = Inr (tool_choice [?tc] # [])
          \<and> finish_reason (tool_choice [?tc]) = ''tool_calls''
          \<and> message_tool_calls (choice_message (tool_choice [?tc])) = Some [?tc]"
    by (simp add: sample_fields asks_def tool_choice_def)
  have e: "json_dumps ?w (PDict []) = ''{}''" "DEBUG ?w = False" "call_id ?tc = ''call_1''"
    by (simp_all add: sample_fields sample_dumps_def example_call_def)
  from unknown_tool_gets_the_empty_object[OF a b, of "[]" "Me [Some ''Profile''] ''Summary''" "[]"
      "tool_choice [?tc]" "[]"] c
  show ?thesis unfolding e by simp
qed

text \<open>
  The claim fails twice. The content sent for \<^verbatim>\<open>delete_everything\<close> is \<^verbatim>\<open>{}\<close>, which
  decodes to a dict without a single key: nothing in it says that the tool is unknown. And
  a name that is no tool but is bound in the module, such as \<^verbatim>\<open>os\<close>, makes dispatch raise.
\<close>

theorem unknown_tool_counterexample:
  "handle_tool_call (sample_world (answers ''Hello''))
      [example_call ''call_1'' ''delete_everything'' ''{}''] []
     = (Inr [PDict [(''role'', PStr ''tool''), (''content'', PStr ''{}''),
                    (''tool_call_id'', PStr ''call_1'')]], [])
   \<and> sample_loads ''{}'' = Some (PDict [])
   \<and> handle_tool_call (sample_world (answers ''Hello''))
      [example_call ''call_2'' ''os'' ''{}''] []
     = (Inl TypeError, [])"
  by (simp add: handle_tool_call_def dispatch_def sample_world_def sample_loads_def
      sample_dumps_def example_call_def globals_get_def module_names_def truthy_def
      call_tool_def)

section \<open>A notification that cannot be delivered\<close>








section \<open>One tool message per tool call\<close>

text \<open>
  Claim C5, as amended. Whenever \<^verbatim>\<open>handle_tool_call\<close> returns, it returns one tool-role
  message per tool call, the i-th carrying the id of the i-th call. It does return when
  every call has a registered name and well-formed arguments and every notification post
  returns a response: then the results are the acknowledgments of the calls, in order,
  and the pass of the loop appends the assistant message followed by them. (The claim
  leaves the post out: when it raises, nothing is appended.)
\<close>

theorem tool_messages_follow_the_calls:
  "(handle_tool_call w tcs log = (Inr ms, log1)
      \<longrightarrow> length ms = length tcs
        \<and> map (\<lambda>m. dict_get m ''tool_call_id'') ms = map (\<lambda>tc. Some (PStr (call_id tc))) tcs
        \<and> map (\<lambda>m. dict_get m ''role'') ms = map (\<lambda>tc. Some (PStr ''tool'')) tcs)
   \<and> (list_all (well_formed_call w) tcs \<and> (\<forall>m. requests_post w m \<noteq> None)
      \<longrightarrow> (\<exists>log'. handle_tool_call w tcs log =
               (Inr (map (\<lambda>tc. PDict [(''role'', PStr ''tool''),
                                       (''content'', PStr (json_dumps w (PDict [(''recorded'', PStr ''ok'')]))),
                                       (''tool_call_id'', PStr (call_id tc))]) tcs), log')
             \<and> (create w (self_model_name self) messages tools = Inr (c # cs)
                  \<and> finish_reason c = ''tool_calls''
                  \<and> message_tool_calls (choice_message c) = Some tcs
                \<longrightarrow> chat_step w self messages log =
                      Continue (messages @ [Assistant (choice_message c)]
                                  @ map (\<lambda>tc. Plain (PDict [(''role'', PStr ''tool''),
                                       (''content'', PStr (json_dumps w (PDict [(''recorded'', PStr ''ok'')]))),
                                       (''tool_call_id'', PStr (call_id tc))])) tcs) log')))"
proof (intro conjI impI)
  assume r: "handle_tool_call w tcs log = (Inr ms, log1)"
  from handle_tool_call_ids[OF r]
  show ids: "map (\<lambda>m. dict_get m ''tool_call_id'') ms = map (\<lambda>tc. Some (PStr (call_id tc))) tcs"
    and "map (\<lambda>m. dict_get m ''role'') ms = map (\<lambda>tc. Some (PStr ''tool'')) tcs"
    by simp_all
  from ids have "length (map (\<lambda>m. dict_get m ''tool_call_id'') ms)
      = length (map (\<lambda>tc. Some (PStr (call_id tc))) tcs)"
    by simp
  then show "length ms = length tcs" by simp
next
  assume "list_all (well_formed_call w) tcs \<and> (\<forall>m. requests_post w m \<noteq> None)"
  then obtain log' where h: "handle_tool_call w tcs log = (Inr (map (acknowledgment w) tcs), log')"
    using handle_tool_call_answered[of w tcs log] by blast
  have ack: "acknowledgment w = (\<lambda>tc. PDict [(''role'', PStr ''tool''),
                 (''content'', PStr (json_dumps w (PDict [(''recorded'', PStr ''ok'')]))),
                 (''tool_call_id'', PStr (call_id tc))])"
    by (rule ext) (simp add: acknowledgment_def)
  have "create w (self_model_name self) messages tools = Inr (c # cs)
                  \<and> finish_reason c = ''tool_calls''
                  \<and> message_tool_calls (choice_message c) = Some tcs
                \<longrightarrow> chat_step w self messages log =
                      Continue (messages @ [Assistant (choice_message c)]
                                  @ map (\<lambda>tc. Plain (acknowledgment w tc)) tcs) log'"
    by (auto simp: chat_step_tool_round[of w self messages c cs tcs] h comp_def)
  with h show "\<exists>log'. handle_tool_call w tcs log =
               (Inr (map (\<lambda>tc. PDict [(''role'', PStr ''tool''),
                                       (''content'', PStr (json_dumps w (PDict [(''recorded'', PStr ''ok'')]))),
                                       (''tool_call_id'', PStr (call_id tc))]) tcs), log')
             \<and> (create w (self_model_name self) messages tools = Inr (c # cs)
                  \<and> finish_reason c = ''tool_calls''
                  \<and> message_tool_calls (choice_message c) = Some tcs
                \<longrightarrow> chat_step w self messages log =
                      Continue (messages @ [Assistant (choice_message c)]
                                  @ map (\<lambda>tc. Plain (PDict [(''role'', PStr ''tool''),
                                       (''content'', PStr (json_dumps w (PDict [(''recorded'', PStr ''ok'')]))),
                                       (''tool_call_id'', PStr (call_id tc))])) tcs) log')"
    unfolding ack by blast
qed

theorem tool_messages_follow_the_calls_witness:
  "length [PDict [(''role'', PStr ''tool''), (''content'', PStr ''{}''), (''tool_call_id'', PStr ''call_7'')],
           PDict [(''role'', PStr ''tool''), (''content'', PStr ''{\"recorded\": \"ok\"}''),
                  (''tool_call_id'', PStr ''call_1'')]]
     = length [example_call ''call_7'' ''delete_everything'' ''{}'', ski_call]
   \<and> map (\<lambda>m. dict_get m ''tool_call_id'')
         [PDict [(''role'', PStr ''tool''), (''content'', PStr ''{}''), (''tool_call_id'', PStr ''call_7'')],
          PDict [(''role'', PStr ''tool''), (''content'', PStr ''{\"recorded\": \"ok\"}''),
                 (''tool_call_id'', PStr ''call_1'')]]
     = map (\<lambda>tc. Some (PStr (call_id tc))) [example_call ''call_7'' ''delete_everything'' ''{}'', ski_call]
   \<and> (\<exists>log'. chat_step (sample_world (asks [email_call, ski_call] ''Thanks'')) (Me [Some ''Profile''] ''Summary'') [] []
     = Continue [Assistant (choice_message (tool_choice [email_call, ski_call])),
                 Plain (PDict [(''role'', PStr ''tool''), (''content'', PStr ''{\"recorded\": \"ok\"}''),
                               (''tool_call_id'', PStr ''call_2'')]),
                 Plain (PDict [(''role'', PStr ''tool''), (''content'', PStr ''{\"recorded\": \"ok\"}''),
                               (''tool_call_id'', PStr ''call_1'')])] log')"
proof -
  let ?w = "sample_world (asks [email_call, ski_call] ''Thanks'')"
  let ?tcs = "[example_call ''call_7'' ''delete_everything'' ''{}'', ski_call]"
  let ?ms = "[PDict [(''role'', PStr ''tool''), (''content'', PStr ''{}''), (''tool_call_id'', PStr ''call_7'')],
           PDict [(''role'', PStr ''tool''), (''content'', PStr ''{\"recorded\": \"ok\"}''),
                  (''tool_call_id'', PStr ''call_1'')]]"
  have run: "handle_tool_call ?w ?tcs [] = (Inr ?ms, [Post (PStr ''Recording unknown question: Do you ski?'')])"
    by (simp add: handle_tool_call_def dispatch_def sample_world_def sample_loads_def
        sample_dumps_def ski_call_def example_call_def globals_get_def module_names_def truthy_def
        call_tool_def record_unknown_question_def push_def fmt_def)
  from tool_messages_follow_the_calls[of ?w ?tcs "[]" ?ms
      "[Post (PStr ''Recording unknown question: Do you ski?'')]"] run
  have first: "length ?ms = length ?tcs
     \<and> map (\<lambda>m. dict_get m ''tool_call_id'') ?ms = map (\<lambda>tc. Some (PStr (call_id tc))) ?tcs"
    by blast
  let ?self = "Me [Some ''Profile''] ''Summary''"
  let ?c = "tool_choice [email_call, ski_call]"
  have wf: "list_all (well_formed_call ?w) [email_call, ski_call] \<and> (\<forall>m. requests_post ?w m \<noteq> None)"
    by (simp add: well_formed_call_def sample_fields sample_loads_def ski_call_def email_call_def
        example_call_def)
  have c: "create ?w (self_model_name ?self) [] tools = Inr (?c # [])
          \<and> finish_reason ?c = ''tool_calls''
          \<and> message_tool_calls (choice_message ?c) = Some [email_call, ski_call]"
    by (simp add: sample_fields asks_def tool_choice_def)
  have e: "json_dumps ?w (PDict [(''recorded'', PStr ''ok'')]) = ''{\"recorded\": \"ok\"}''"
    "call_id email_call = ''call_2''" "call_id ski_call = ''call_1''"
    by (simp_all add: sample_fields sample_dumps_def email_call_def ski_call_def example_call_def)
  from tool_messages_follow_the_calls[of ?w "[email_call, ski_call]" "[]" _ _ ?self "[]" ?c "[]"] wf c
  obtain log' where "chat_step ?w ?self [] [] =
                      Continue ([] @ [Assistant (choice_message ?c)]
                                  @ map (\<lambda>tc. Plain (PDict [(''role'', PStr ''tool''),
                                       (''content'', PStr (json_dumps ?w (PDict [(''recorded'', PStr ''ok'')]))),
                                       (''tool_call_id'', PStr (call_id tc))])) [email_call, ski_call]) log'"
    by blast
  then have "chat_step ?w ?self [] [] =
     Continue [Assistant (choice_message ?c),
                 Plain (PDict [(''role'', PStr ''tool''), (''content'', PStr ''{\"recorded\": \"ok\"}''),
                               (''tool_call_id'', PStr ''call_2'')]),
                 Plain (PDict [(''role'', PStr ''tool''), (''content'', PStr ''{\"recorded\": \"ok\"}''),
                               (''tool_call_id'', PStr ''call_1'')])] log'"
    by (simp add: e)
  then have "\<exists>log'. chat_step ?w ?self [] [] =
     Continue [Assistant (choice_message ?c),
                 Plain (PDict [(''role'', PStr ''tool''), (''content'', PStr ''{\"recorded\": \"ok\"}''),
                               (''tool_call_id'', PStr ''call_2'')]),
                 Plain (PDict [(''role'', PStr ''tool''), (''content'', PStr ''{\"recorded\": \"ok\"}''),
                               (''tool_call_id'', PStr ''call_1'')])] log'"
    ..
  with first show ?thesis by blast
qed

text \<open>
  The claim fails for a registered name with well-formed arguments when the notification
  endpoint is out of reach: the pass raises, and neither the assistant message nor any
  tool message is appended.
\<close>

theorem tool_messages_counterexample:
  "well_formed_call (offline_world (asks [email_call] ''Thanks'')) email_call
   \<and> chat_step (offline_world (asks [email_call] ''Thanks'')) (Me [Some ''Profile''] ''Summary'') [] []
     = Raise RequestException
        [Post (PStr ''Recording Name not provided with email a@b.com and notes not provided'')]"
  by (simp add: well_formed_call_def chat_step_def sample_fields asks_def
      tool_choice_def handle_tool_call_def dispatch_def sample_loads_def email_call_def
      example_call_def globals_get_tools truthy_def call_tool_def record_user_details_def
      push_def fmt_def)

section \<open>The length of a turn\<close>

text \<open>A pass in the world whose model asks for \<^verbatim>\<open>record_unknown_question\<close>.\<close>

lemma ski_call_answered:
  "handle_tool_call (sample_world client) [ski_call] log =
     (Inr [PDict [(''role'', PStr ''tool''), (''content'', PStr ''{\"recorded\": \"ok\"}''),
                  (''tool_call_id'', PStr ''call_1'')]],
      log @ [Post (PStr ''Recording unknown question: Do you ski?'')])"
  by (simp add: handle_tool_call_def dispatch_def sample_fields sample_loads_def
      sample_dumps_def ski_call_def example_call_def globals_get_tools truthy_def
      call_tool_def record_unknown_question_def push_def fmt_def)

lemma keeps_asking_step:
  "chat_step (sample_world (keeps_asking ski_call N text)) self messages log =
     (if length (filter is_assistant messages) < N
      then Continue (messages @ [Assistant (choice_message (tool_choice [ski_call])),
                       Plain (PDict [(''role'', PStr ''tool''), (''content'', PStr ''{\"recorded\": \"ok\"}''),
                                     (''tool_call_id'', PStr ''call_1'')])])
             (log @ [Post (PStr ''Recording unknown question: Do you ski?'')])
      else Return (Some text) log)"
  by (simp add: chat_step_def sample_fields keeps_asking_def tool_choice_def final_choice_def
      ski_call_answered)

lemma keeps_asking_rounds:
  "length (filter is_assistant messages) + n \<le> N \<Longrightarrow>
     \<exists>messages' log'. rounds n (sample_world (keeps_asking ski_call N text)) self messages log
                        = Continue messages' log'
                    \<and> length (filter is_assistant messages') = length (filter is_assistant messages) + n"
proof (induction n arbitrary: messages log)
  case 0
  show ?case by simp
next
  case (Suc n)
  let ?m = "messages @ [Assistant (choice_message (tool_choice [ski_call])),
                       Plain (PDict [(''role'', PStr ''tool''), (''content'', PStr ''{\"recorded\": \"ok\"}''),
                                     (''tool_call_id'', PStr ''call_1'')])]"
  let ?l = "log @ [Post (PStr ''Recording unknown question: Do you ski?'')]"
  from Suc.prems have lt: "length (filter is_assistant messages) < N" by simp
  have count: "length (filter is_assistant ?m) = Suc (length (filter is_assistant messages))"
    by simp
  with Suc.prems have "length (filter is_assistant ?m) + n \<le> N" by simp
  from Suc.IH[OF this, of ?l] obtain messages' log' where
    r: "rounds n (sample_world (keeps_asking ski_call N text)) self ?m ?l = Continue messages' log'"
    and k: "length (filter is_assistant messages') = length (filter is_assistant ?m) + n"
    by blast
  have "rounds (Suc n) (sample_world (keeps_asking ski_call N text)) self messages log
          = Continue messages' log'"
    using lt r by (simp add: keeps_asking_step)
  moreover have "length (filter is_assistant messages') = length (filter is_assistant messages) + Suc n"
    using k count by simp
  ultimately show ?case by blast
qed

lemma always_asks_rounds:
  "\<exists>messages' log'. rounds n (sample_world (always_asks ski_call)) self messages log
                      = Continue messages' log'"
proof (induction n arbitrary: messages log)
  case 0
  show ?case by simp
next
  case (Suc n)
  have "chat_step (sample_world (always_asks ski_call)) self messages log =
     Continue (messages @ [Assistant (choice_message (tool_choice [ski_call])),
                       Plain (PDict [(''role'', PStr ''tool''), (''content'', PStr ''{\"recorded\": \"ok\"}''),
                                     (''tool_call_id'', PStr ''call_1'')])])
             (log @ [Post (PStr ''Recording unknown question: Do you ski?'')])"
    by (simp add: chat_step_def sample_fields always_asks_def tool_choice_def ski_call_answered)
  with Suc.IH show ?case by simp
qed

lemma returns_iff:
  "chat_loop w self messages log = Some (Inr text, log') \<longleftrightarrow>
     (\<exists>n messages' c cs.
         rounds n w self messages log = Continue messages' log'
       \<and> create w (self_model_name self) messages' tools = Inr (c # cs)
       \<and> finish_reason c \<noteq> ''tool_calls''
       \<and> message_content (choice_message c) = text)"
proof
  assume "chat_loop w self messages log = Some (Inr text, log')"
  then obtain n where n: "outcome (rounds n w self messages log) = Some (Inr text, log')"
    using rounds_of_chat_loop by blast
  then have "\<exists>k messages'. rounds k w self messages log = Continue messages' log'
       \<and> chat_step w self messages' log' = Return text log'"
  proof (induction n)
    case 0
    then show ?case by simp
  next
    case (Suc n)
    show ?case
    proof (cases "rounds n w self messages log")
      case (Continue m' l')
      with Suc.prems have "outcome (chat_step w self m' l') = Some (Inr text, log')"
        by (simp only: rounds_last) simp
      then have "chat_step w self m' l' = Return text log'"
        by (cases "chat_step w self m' l'") auto
      moreover from this have "l' = log'" by (auto simp: chat_step_Return_iff)
      ultimately show ?thesis using Continue by blast
    next
      case (Return t l')
      with Suc.prems have "outcome (rounds n w self messages log) = Some (Inr text, log')"
        by (simp only: rounds_last) simp
      then show ?thesis by (rule Suc.IH)
    next
      case (Raise e l')
      with Suc.prems have "outcome (rounds n w self messages log) = Some (Inr text, log')"
        by (simp only: rounds_last) simp
      then show ?thesis by (rule Suc.IH)
    qed
  qed
  then show "\<exists>n messages' c cs.
         rounds n w self messages log = Continue messages' log'
       \<and> create w (self_model_name self) messages' tools = Inr (c # cs)
       \<and> finish_reason c \<noteq> ''tool_calls''
       \<and> message_content (choice_message c) = text"
    by (auto simp: chat_step_Return_iff)
next
  assume "\<exists>n messages' c cs.
         rounds n w self messages log = Continue messages' log'
       \<and> create w (self_model_name self) messages' tools = Inr (c # cs)
       \<and> finish_reason c \<noteq> ''tool_calls''
       \<and> message_content (choice_message c) = text"
  then obtain n messages' where r: "rounds n w self messages log = Continue messages' log'"
    and s: "chat_step w self messages' log' = Return text log'"
    by (auto simp: chat_step_Return_iff)
  have "chat_loop w self messages log = chat_loop w self messages' log'"
    using r by (rule chat_loop_rounds)
  also have "\<dots> = Some (Inr text, log')"
    using s by (subst chat_loop_step) simp
  finally show "chat_loop w self messages log = Some (Inr text, log')" .
qed

text \<open>
  Claim C6. The loop of \<^verbatim>\<open>chat\<close> has no bound on its rounds and ends with an answer
  exactly when the model stops asking for tools:
  \<^item> \<^verbatim>\<open>chat\<close>'s loop returns a text exactly when, after some number of completed tool
    rounds, the model's response has a finish reason other than \<^verbatim>\<open>tool_calls\<close>; the text is
    that response's content. In particular every model behaviour that gets there makes the
    loop terminate.
  \<^item> No round count is the last: for every \<open>n\<close> there is a model behaviour under which the
    loop completes \<open>n\<close> tool rounds and then returns.
  \<^item> The loop runs forever exactly when every pass ends in a round of tool calls; under a
    model that asks for a tool in every response it never returns.
\<close>

theorem loop_ends_when_the_model_answers:
  "(chat_loop w self messages log = Some (Inr text, log') \<longleftrightarrow>
     (\<exists>n messages' c cs.
         rounds n w self messages log = Continue messages' log'
       \<and> create w (self_model_name self) messages' tools = Inr (c # cs)
       \<and> finish_reason c \<noteq> ''tool_calls''
       \<and> message_content (choice_message c) = text))
   \<and> (\<forall>n. \<exists>w' messages' log' text'.
          rounds n w' self messages log = Continue messages' log'
        \<and> chat_step w' self messages' log' = Return text' log'
        \<and> chat_loop w' self messages log = Some (Inr text', log'))
   \<and> (chat_loop w self messages log = None \<longleftrightarrow>
        (\<forall>n. \<exists>messages' log'. rounds n w self messages log = Continue messages' log'))
   \<and> (\<exists>w'. chat_loop w' self messages log = None)"
proof (intro conjI allI)
  show "chat_loop w self messages log = Some (Inr text, log') \<longleftrightarrow>
     (\<exists>n messages' c cs.
         rounds n w self messages log = Continue messages' log'
       \<and> create w (self_model_name self) messages' tools = Inr (c # cs)
       \<and> finish_reason c \<noteq> ''tool_calls''
       \<and> message_content (choice_message c) = text)"
    by (rule returns_iff)
next
  fix n
  let ?N = "length (filter is_assistant messages) + n"
  let ?w = "sample_world (keeps_asking ski_call ?N ''Done'')"
  from keeps_asking_rounds[of messages n ?N "''Done''" self log]
  obtain messages' l' where r: "rounds n ?w self messages log = Continue messages' l'"
    and k: "length (filter is_assistant messages') = ?N"
    by auto
  from k have s: "chat_step ?w self messages' l' = Return (Some ''Done'') l'"
    by (simp add: keeps_asking_step)
  have "chat_loop ?w self messages log = chat_loop ?w self messages' l'"
    using r by (rule chat_loop_rounds)
  also have "\<dots> = Some (Inr (Some ''Done''), l')"
    using s by (subst chat_loop_step) simp
  finally have "chat_loop ?w self messages log = Some (Inr (Some ''Done''), l')" .
  with r s show "\<exists>w' messages' log' text'.
          rounds n w' self messages log = Continue messages' log'
        \<and> chat_step w' self messages' log' = Return text' log'
        \<and> chat_loop w' self messages log = Some (Inr text', log')"
    by blast
next
  show "chat_loop w self messages log = None \<longleftrightarrow>
        (\<forall>n. \<exists>messages' log'. rounds n w self messages log = Continue messages' log')"
  proof
    assume none: "chat_loop w self messages log = None"
    show "\<forall>n. \<exists>messages' log'. rounds n w self messages log = Continue messages' log'"
    proof
      fix n
      show "\<exists>messages' log'. rounds n w self messages log = Continue messages' log'"
      proof (cases "rounds n w self messages log")
        case (Continue m' l')
        then show ?thesis by blast
      next
        case (Return t l')
        then have "outcome (rounds n w self messages log) = Some (Inr t, l')" by simp
        from chat_loop_of_rounds[OF this] none show ?thesis by simp
      next
        case (Raise e l')
        then have "outcome (rounds n w self messages log) = Some (Inl e, l')" by simp
        from chat_loop_of_rounds[OF this] none show ?thesis by simp
      qed
    qed
  next
    assume all: "\<forall>n. \<exists>messages' log'. rounds n w self messages log = Continue messages' log'"
    show "chat_loop w self messages log = None"
    proof (rule chat_loop_None)
      fix n
      from all obtain m' l' where "rounds n w self messages log = Continue m' l'" by blast
      then show "outcome (rounds n w self messages log) = None" by simp
    qed
  qed
next
  have "chat_loop (sample_world (always_asks ski_call)) self messages log = None"
  proof (rule chat_loop_None)
    fix n
    from always_asks_rounds[of n self messages log]
    show "outcome (rounds n (sample_world (always_asks ski_call)) self messages log) = None"
      by auto
  qed
  then show "\<exists>w'. chat_loop w' self messages log = None" ..
qed

theorem loop_ends_when_the_model_answers_witness:
  "chat_loop (sample_world (asks [ski_call] ''Sorry, I cannot say.'')) (Me [Some ''Profile''] ''Summary'') [] []
     = Some (Inr (Some ''Sorry, I cannot say.''),
             [Post (PStr ''Recording unknown question: Do you ski?'')])"
proof -
  let ?w = "sample_world (asks [ski_call] ''Sorry, I cannot say.'')"
  let ?self = "Me [Some ''Profile''] ''Summary''"
  let ?m = "[Assistant (choice_message (tool_choice [ski_call])),
             Plain (PDict [(''role'', PStr ''tool''), (''content'', PStr ''{\"recorded\": \"ok\"}''),
                           (''tool_call_id'', PStr ''call_1'')])]"
  have r: "rounds (Suc 0) ?w ?self [] [] = Continue ?m [Post (PStr ''Recording unknown question: Do you ski?'')]"
    by (simp add: chat_step_def sample_fields asks_def tool_choice_def ski_call_answered)
  have c: "create ?w (self_model_name ?self) ?m tools = Inr (final_choice ''Sorry, I cannot say.'' # [])
       \<and> finish_reason (final_choice ''Sorry, I cannot say.'') \<noteq> ''tool_calls''
       \<and> message_content (choice_message (final_choice ''Sorry, I cannot say.'')) = Some ''Sorry, I cannot say.''"
    by (simp add: sample_fields asks_def final_choice_def)
  from loop_ends_when_the_model_answers[of ?w ?self "[]" "[]" "Some ''Sorry, I cannot say.''"
      "[Post (PStr ''Recording unknown question: Do you ski?'')]"] r c
  show ?thesis by blast
qed

section \<open>The cleaned history and the first request\<close>

lemma clean_loop_other:
  assumes "\<And>d. m \<noteq> Plain (PDict d)"
  shows "clean_loop (m # history) acc = clean_loop history (acc @ [m])"
proof (cases m)
  case (Plain v)
  with assms show ?thesis by (cases v) auto
qed simp_all

lemma clean_loop_acc:
  "clean_loop history acc =
     (case clean_loop history [] of Inl e \<Rightarrow> Inl e | Inr clean \<Rightarrow> Inr (acc @ clean))"
proof (induction history arbitrary: acc)
  case Nil
  show ?case by simp
next
  case (Cons m history)
  have step: "clean_loop (m # history) acc =
         (case clean_loop (m # history) [] of Inl e \<Rightarrow> Inl e | Inr clean \<Rightarrow> Inr (acc @ clean))"
    if a: "clean_loop (m # history) acc = clean_loop history (acc @ [m'])"
      and b: "clean_loop (m # history) [] = clean_loop history [m']" for m'
  proof -
    have i1: "clean_loop history (acc @ [m']) =
         (case clean_loop history [] of Inl e \<Rightarrow> Inl e | Inr clean \<Rightarrow> Inr ((acc @ [m']) @ clean))"
      by (rule Cons.IH)
    have i2: "clean_loop history [m'] =
         (case clean_loop history [] of Inl e \<Rightarrow> Inl e | Inr clean \<Rightarrow> Inr ([m'] @ clean))"
      by (rule Cons.IH)
    show ?thesis by (simp only: a b i1 i2) (simp split: sum.splits)
  qed
  show ?case
  proof (cases "\<exists>d. m = Plain (PDict d)")
    case False
    then have "\<And>d. m \<noteq> Plain (PDict d)" by blast
    then have "clean_loop (m # history) acc = clean_loop history (acc @ [m])"
      and "clean_loop (m # history) [] = clean_loop history [m]"
      using clean_loop_other[of m history] by simp_all
    then show ?thesis by (rule step)
  next
    case True
    then obtain d where m: "m = Plain (PDict d)" by blast
    show ?thesis
    proof (cases "map_of d ''role''")
      case None
      with m show ?thesis by simp
    next
      case r: (Some r)
      show ?thesis
      proof (cases "map_of d ''content''")
        case None
        with m r show ?thesis by simp
      next
        case c: (Some c)
        have "clean_loop (m # history) acc
                 = clean_loop history (acc @ [Plain (PDict [(''role'', r), (''content'', c)])])"
          and "clean_loop (m # history) []
                 = clean_loop history [Plain (PDict [(''role'', r), (''content'', c)])]"
          using m r c by simp_all
        then show ?thesis by (rule step)
      qed
    qed
  qed
qed

text \<open>The cleaning, one entry at a time.\<close>

lemma clean_loop_Cons_dict:
  "clean_loop (Plain (PDict d) # history) [] =
     (case map_of d ''role'' of
        None \<Rightarrow> Inl KeyError
      | Some r \<Rightarrow>
          (case map_of d ''content'' of
             None \<Rightarrow> Inl KeyError
           | Some c \<Rightarrow>
               (case clean_loop history [] of
                  Inl e \<Rightarrow> Inl e
                | Inr clean \<Rightarrow> Inr (Plain (PDict [(''role'', r), (''content'', c)]) # clean))))"
  by (simp add: clean_loop_acc[of history "[_]"] split: option.splits sum.splits)

lemma clean_loop_Cons_other:
  assumes "\<And>d. m \<noteq> Plain (PDict d)"
  shows "clean_loop (m # history) [] =
     (case clean_loop history [] of Inl e \<Rightarrow> Inl e | Inr clean \<Rightarrow> Inr (m # clean))"
  using clean_loop_other[OF assms, of history "[]"]
  by (simp add: clean_loop_acc[of history "[_]"] split: sum.splits)

lemma clean_loop_returns_iff:
  "(\<exists>clean. clean_loop history [] = Inr clean) \<longleftrightarrow> list_all has_role_and_content history"
proof (induction history)
  case Nil
  show ?case by simp
next
  case (Cons m history)
  show ?case
  proof (cases "\<exists>d. m = Plain (PDict d)")
    case True
    then obtain d where m: "m = Plain (PDict d)" by blast
    show ?thesis using Cons.IH unfolding m clean_loop_Cons_dict
      by (auto split: option.splits sum.splits)
  next
    case False
    then have n: "\<And>d. m \<noteq> Plain (PDict d)" by blast
    have h: "has_role_and_content m"
    proof (cases m)
      case (Plain v)
      with n show ?thesis by (cases v) auto
    qed simp_all
    show ?thesis using Cons.IH h
      by (auto simp: clean_loop_Cons_other[OF n] split: sum.splits)
  qed
qed

lemma clean_loop_entries:
  "clean_loop history [] = Inr clean \<Longrightarrow>
     length clean = length history
     \<and> (\<forall>i<length history.
          (\<forall>d. history ! i = Plain (PDict d) \<longrightarrow>
             (\<exists>r c. map_of d ''role'' = Some r \<and> map_of d ''content'' = Some c
                    \<and> clean ! i = Plain (PDict [(''role'', r), (''content'', c)])))
        \<and> ((\<forall>d. history ! i \<noteq> Plain (PDict d)) \<longrightarrow> clean ! i = history ! i))"
proof (induction history arbitrary: clean)
  case Nil
  then show ?case by simp
next
  case (Cons m history)
  let ?P = "\<lambda>h cl i.
          (\<forall>d. h ! i = Plain (PDict d) \<longrightarrow>
             (\<exists>r c. map_of d ''role'' = Some r \<and> map_of d ''content'' = Some c
                    \<and> cl ! i = Plain (PDict [(''role'', r), (''content'', c)])))
        \<and> ((\<forall>d. h ! i \<noteq> Plain (PDict d)) \<longrightarrow> cl ! i = h ! i)"
  have "\<exists>m' rest. clean = m' # rest \<and> clean_loop history [] = Inr rest \<and> ?P (m # history) clean 0"
  proof (cases "\<exists>d. m = Plain (PDict d)")
    case True
    then obtain d where m: "m = Plain (PDict d)" by blast
    from Cons.prems show ?thesis unfolding m clean_loop_Cons_dict
      by (auto split: option.splits sum.splits)
  next
    case False
    then have n: "\<And>d. m \<noteq> Plain (PDict d)" by blast
    from Cons.prems obtain rest where "clean = m # rest" "clean_loop history [] = Inr rest"
      by (auto simp: clean_loop_Cons_other[OF n] split: sum.splits)
    with n show ?thesis by simp
  qed
  then obtain m' rest where cl: "clean = m' # rest" and r: "clean_loop history [] = Inr rest"
    and z: "?P (m # history) clean 0"
    by blast
  from Cons.IH[OF r] have len: "length rest = length history"
    and ih: "\<forall>i<length history. ?P history rest i"
    by simp_all
  have "\<forall>i<length (m # history). ?P (m # history) clean i"
  proof (intro allI impI)
    fix i assume i: "i < length (m # history)"
    show "?P (m # history) clean i"
    proof (cases i)
      case 0
      with z show ?thesis by simp
    next
      case (Suc j)
      with i have "j < length history" by simp
      with ih have "?P history rest j" by blast
      with Suc cl show ?thesis by simp
    qed
  qed
  with len cl show ?case by simp
qed

lemma clean_loop_identity:
  "list_all only_role_and_content history \<Longrightarrow> clean_loop history [] = Inr history"
proof (induction history)
  case Nil
  show ?case by simp
next
  case (Cons m history)
  then have ih: "clean_loop history [] = Inr history" and o: "only_role_and_content m"
    by simp_all
  show ?case
  proof (cases "\<exists>d. m = Plain (PDict d)")
    case True
    then obtain d where m: "m = Plain (PDict d)" by blast
    from o m obtain r c where "d = [(''role'', r), (''content'', c)]"
      by (cases "(m)" rule: only_role_and_content.cases) auto
    with m ih show ?thesis unfolding m clean_loop_Cons_dict by simp
  next
    case False
    then have n: "\<And>d. m \<noteq> Plain (PDict d)" by blast
    show ?thesis by (simp add: clean_loop_Cons_other[OF n] ih)
  qed
qed


lemma initial_messages_clean:
  "clean_loop history [] = Inr clean \<Longrightarrow>
     initial_messages self user_message history =
       Inr ([Plain (PDict [(''role'', PStr ''system''), (''content'', PStr (system_prompt self))])]
            @ clean
            @ [Plain (PDict [(''role'', PStr ''user''), (''content'', PStr user_message)])])"
  by (simp add: initial_messages_def)

text \<open>
  Claim C10. The history the first request carries is the caller's history, entry by entry:
  a dict is replaced by a dict of exactly its \<^verbatim>\<open>"role"\<close> and \<^verbatim>\<open>"content"\<close> (so every
  other field it had is dropped), and any entry that is not a dict is passed on unchanged.
  The cleaning goes through exactly when every dict of the history has both keys
  (otherwise line 130 raises \<^verbatim>\<open>KeyError\<close> and nothing is sent).
\<close>

theorem history_entries_keep_role_and_content:
  "((\<exists>clean. clean_loop history [] = Inr clean) \<longleftrightarrow> list_all has_role_and_content history)
   \<and> (clean_loop history [] = Inr clean \<longrightarrow>
        initial_messages self user_message history =
          Inr ([Plain (PDict [(''role'', PStr ''system''), (''content'', PStr (system_prompt self))])]
               @ clean
               @ [Plain (PDict [(''role'', PStr ''user''), (''content'', PStr user_message)])])
      \<and> length clean = length history
      \<and> (\<forall>i<length history.
            (\<forall>d. history ! i = Plain (PDict d) \<longrightarrow>
               (\<exists>r c. map_of d ''role'' = Some r \<and> map_of d ''content'' = Some c
                      \<and> clean ! i = Plain (PDict [(''role'', r), (''content'', c)])))
          \<and> ((\<forall>d. history ! i \<noteq> Plain (PDict d)) \<longrightarrow> clean ! i = history ! i)))"
  using clean_loop_returns_iff[of history] clean_loop_entries[of history clean]
    initial_messages_clean[of history clean self user_message]
  by blast

theorem history_entries_keep_role_and_content_witness:
  "(\<exists>clean. clean_loop
      [Plain (PDict [(''role'', PStr ''assistant''), (''content'', PStr ''Hello''),
                     (''metadata'', PNone), (''tool_calls'', PList [])]),
       Plain (PList [PStr ''Hi'', PStr ''Hello''])] [] = Inr clean)
   \<and> initial_messages (Me [Some ''Profile''] ''Summary'') ''And your email?''
      [Plain (PDict [(''role'', PStr ''assistant''), (''content'', PStr ''Hello''),
                     (''metadata'', PNone), (''tool_calls'', PList [])]),
       Plain (PList [PStr ''Hi'', PStr ''Hello''])]
   = Inr [Plain (PDict [(''role'', PStr ''system''),
                        (''content'', PStr (system_prompt (Me [Some ''Profile''] ''Summary'')))]),
          Plain (PDict [(''role'', PStr ''assistant''), (''content'', PStr ''Hello'')]),
          Plain (PList [PStr ''Hi'', PStr ''Hello'']),
          Plain (PDict [(''role'', PStr ''user''), (''content'', PStr ''And your email?'')])]"
proof -
  let ?h = "[Plain (PDict [(''role'', PStr ''assistant''), (''content'', PStr ''Hello''),
                     (''metadata'', PNone), (''tool_calls'', PList [])]),
       Plain (PList [PStr ''Hi'', PStr ''Hello''])]"
  let ?c = "[Plain (PDict [(''role'', PStr ''assistant''), (''content'', PStr ''Hello'')]),
          Plain (PList [PStr ''Hi'', PStr ''Hello''])]"
  have c: "clean_loop ?h [] = Inr ?c" by simp
  have keys: "list_all has_role_and_content ?h" by simp
  from history_entries_keep_role_and_content[of ?h] keys
  have ex: "\<exists>clean. clean_loop ?h [] = Inr clean" by blast
  from history_entries_keep_role_and_content[of ?h ?c "Me [Some ''Profile''] ''Summary''" "''And your email?''"] c
  have "initial_messages (Me [Some ''Profile''] ''Summary'') ''And your email?'' ?h =
          Inr ([Plain (PDict [(''role'', PStr ''system''),
                        (''content'', PStr (system_prompt (Me [Some ''Profile''] ''Summary'')))])]
               @ ?c
               @ [Plain (PDict [(''role'', PStr ''user''), (''content'', PStr ''And your email?'')])])"
    by blast
  with ex show ?thesis by simp
qed

lemma map_of_role_content:
  assumes "map_of d ''role'' = Some r" and "map_of d ''content'' = Some c"
      and "set (map fst d) = {''role'', ''content''}"
  shows "map_of [(''role'', r), (''content'', c)] = map_of d"
proof
  fix k
  show "map_of [(''role'', r), (''content'', c)] k = map_of d k"
  proof (cases "k = ''role'' \<or> k = ''content''")
    case True
    with assms show ?thesis by auto
  next
    case False
    with assms(3) have "k \<notin> set (map fst d)" by simp
    then have "map_of d k = None" by (simp add: map_of_eq_None_iff)
    with False show ?thesis by simp
  qed
qed

lemma initial_messages_returns_iff:
  "(\<exists>messages. initial_messages self user_message history = Inr messages)
     \<longleftrightarrow> list_all has_role_and_content history"
  using clean_loop_returns_iff[of history]
  by (auto simp: initial_messages_def split: sum.splits)

text \<open>
  Claim C7, as amended. The first request exists exactly when every dict of the prior
  history has a role and a content. It then carries the system instruction, the cleaned
  history and the new user message, in this order. The cleaned history has the length of
  the prior history; an entry that is not a dict is the prior entry, and a dict is replaced
  by the dict of its role and content alone, which is the same dict (the same keys with the
  same values) exactly when the prior one had no other key. So the request carries the
  prior history itself only when no dict entry has a field beyond these two (the claim has
  the prior history there for every history). When the response to the first request has a
  finish reason other than \<^verbatim>\<open>tool_calls\<close>, \<^verbatim>\<open>chat\<close> returns the response's content and
  nothing has been dispatched: the effects are those before the call.
\<close>

theorem first_request_and_direct_answer:
  "((\<exists>messages. initial_messages self user_message history = Inr messages)
      \<longleftrightarrow> list_all has_role_and_content history)
   \<and> (initial_messages self user_message history = Inr messages \<longrightarrow>
      (\<exists>clean.
         messages =
           [Plain (PDict [(''role'', PStr ''system''), (''content'', PStr (system_prompt self))])]
           @ clean
           @ [Plain (PDict [(''role'', PStr ''user''), (''content'', PStr user_message)])]
       \<and> length clean = length history
       \<and> (\<forall>i<length history.
            (\<forall>d. history ! i = Plain (PDict d) \<longrightarrow>
               (\<exists>r c. map_of d ''role'' = Some r \<and> map_of d ''content'' = Some c
                  \<and> clean ! i = Plain (PDict [(''role'', r), (''content'', c)])
                  \<and> (set (map fst d) = {''role'', ''content''}
                       \<longrightarrow> map_of [(''role'', r), (''content'', c)] = map_of d)
                  \<and> (\<forall>k v. k \<noteq> ''role'' \<and> k \<noteq> ''content'' \<and> map_of d k = Some v
                       \<longrightarrow> map_of [(''role'', r), (''content'', c)] \<noteq> map_of d)))
          \<and> ((\<forall>d. history ! i \<noteq> Plain (PDict d)) \<longrightarrow> clean ! i = history ! i))))
   \<and> (list_all only_role_and_content history \<longrightarrow>
        initial_messages self user_message history =
          Inr ([Plain (PDict [(''role'', PStr ''system''), (''content'', PStr (system_prompt self))])]
               @ history
               @ [Plain (PDict [(''role'', PStr ''user''), (''content'', PStr user_message)])]))
   \<and> (initial_messages self user_message history = Inr messages
        \<and> create w (self_model_name self) messages tools = Inr (c # cs)
        \<and> finish_reason c \<noteq> ''tool_calls''
      \<longrightarrow> chat w self user_message history log
            = Some (Inr (message_content (choice_message c)), log))"
proof (intro conjI impI)
  show "(\<exists>messages. initial_messages self user_message history = Inr messages)
      \<longleftrightarrow> list_all has_role_and_content history"
    by (rule initial_messages_returns_iff)
next
  assume "initial_messages self user_message history = Inr messages"
  then obtain clean where c: "clean_loop history [] = Inr clean"
    and m: "messages =
             [Plain (PDict [(''role'', PStr ''system''), (''content'', PStr (system_prompt self))])]
             @ clean
             @ [Plain (PDict [(''role'', PStr ''user''), (''content'', PStr user_message)])]"
    by (auto simp: initial_messages_def split: sum.splits)
  from clean_loop_entries[OF c] have len: "length clean = length history"
    and ent: "\<forall>i<length history.
          (\<forall>d. history ! i = Plain (PDict d) \<longrightarrow>
             (\<exists>r c. map_of d ''role'' = Some r \<and> map_of d ''content'' = Some c
                    \<and> clean ! i = Plain (PDict [(''role'', r), (''content'', c)])))
        \<and> ((\<forall>d. history ! i \<noteq> Plain (PDict d)) \<longrightarrow> clean ! i = history ! i)"
    by simp_all
  have "\<forall>i<length history.
            (\<forall>d. history ! i = Plain (PDict d) \<longrightarrow>
               (\<exists>r c. map_of d ''role'' = Some r \<and> map_of d ''content'' = Some c
                  \<and> clean ! i = Plain (PDict [(''role'', r), (''content'', c)])
                  \<and> (set (map fst d) = {''role'', ''content''}
                       \<longrightarrow> map_of [(''role'', r), (''content'', c)] = map_of d)
                  \<and> (\<forall>k v. k \<noteq> ''role'' \<and> k \<noteq> ''content'' \<and> map_of d k = Some v
                       \<longrightarrow> map_of [(''role'', r), (''content'', c)] \<noteq> map_of d)))
          \<and> ((\<forall>d. history ! i \<noteq> Plain (PDict d)) \<longrightarrow> clean ! i = history ! i)"
  proof (intro allI impI conjI)
    fix i d assume i: "i < length history" and d: "history ! i = Plain (PDict d)"
    from ent i d obtain r c where r: "map_of d ''role'' = Some r"
      and ct: "map_of d ''content'' = Some c"
      and cl: "clean ! i = Plain (PDict [(''role'', r), (''content'', c)])"
      by blast
    have same: "set (map fst d) = {''role'', ''content''}
                       \<longrightarrow> map_of [(''role'', r), (''content'', c)] = map_of d"
      using map_of_role_content[OF r ct] by blast
    have other: "\<forall>k v. k \<noteq> ''role'' \<and> k \<noteq> ''content'' \<and> map_of d k = Some v
                       \<longrightarrow> map_of [(''role'', r), (''content'', c)] \<noteq> map_of d"
    proof (intro allI impI)
      fix k v assume kv: "k \<noteq> ''role'' \<and> k \<noteq> ''content'' \<and> map_of d k = Some v"
      then have n: "map_of [(''role'', r), (''content'', c)] k = None" by simp
      show "map_of [(''role'', r), (''content'', c)] \<noteq> map_of d"
      proof
        assume "map_of [(''role'', r), (''content'', c)] = map_of d"
        then have "map_of [(''role'', r), (''content'', c)] k = map_of d k" by (rule arg_cong)
        with n kv show False by simp
      qed
    qed
    from r ct cl same other
    show "\<exists>r c. map_of d ''role'' = Some r \<and> map_of d ''content'' = Some c
                  \<and> clean ! i = Plain (PDict [(''role'', r), (''content'', c)])
                  \<and> (set (map fst d) = {''role'', ''content''}
                       \<longrightarrow> map_of [(''role'', r), (''content'', c)] = map_of d)
                  \<and> (\<forall>k v. k \<noteq> ''role'' \<and> k \<noteq> ''content'' \<and> map_of d k = Some v
                       \<longrightarrow> map_of [(''role'', r), (''content'', c)] \<noteq> map_of d)"
      by blast
  next
    fix i assume "i < length history" and "\<forall>d. history ! i \<noteq> Plain (PDict d)"
    with ent show "clean ! i = history ! i" by blast
  qed
  with m len show "\<exists>clean.
         messages =
           [Plain (PDict [(''role'', PStr ''system''), (''content'', PStr (system_prompt self))])]
           @ clean
           @ [Plain (PDict [(''role'', PStr ''user''), (''content'', PStr user_message)])]
       \<and> length clean = length history
       \<and> (\<forall>i<length history.
            (\<forall>d. history ! i = Plain (PDict d) \<longrightarrow>
               (\<exists>r c. map_of d ''role'' = Some r \<and> map_of d ''content'' = Some c
                  \<and> clean ! i = Plain (PDict [(''role'', r), (''content'', c)])
                  \<and> (set (map fst d) = {''role'', ''content''}
                       \<longrightarrow> map_of [(''role'', r), (''content'', c)] = map_of d)
                  \<and> (\<forall>k v. k \<noteq> ''role'' \<and> k \<noteq> ''content'' \<and> map_of d k = Some v
                       \<longrightarrow> map_of [(''role'', r), (''content'', c)] \<noteq> map_of d)))
          \<and> ((\<forall>d. history ! i \<noteq> Plain (PDict d)) \<longrightarrow> clean ! i = history ! i))"
    by blast
next
  assume "list_all only_role_and_content history"
  then have "clean_loop history [] = Inr history" by (rule clean_loop_identity)
  then show "initial_messages self user_message history =
          Inr ([Plain (PDict [(''role'', PStr ''system''), (''content'', PStr (system_prompt self))])]
               @ history
               @ [Plain (PDict [(''role'', PStr ''user''), (''content'', PStr user_message)])])"
    by (rule initial_messages_clean)
next
  assume a: "initial_messages self user_message history = Inr messages
        \<and> create w (self_model_name self) messages tools = Inr (c # cs)
        \<and> finish_reason c \<noteq> ''tool_calls''"
  then have "chat_step w self messages log = Return (message_content (choice_message c)) log"
    by (simp add: chat_step_Return_iff)
  then have "chat_loop w self messages log = Some (Inr (message_content (choice_message c)), log)"
    by (subst chat_loop_step) simp
  with a show "chat w self user_message history log
            = Some (Inr (message_content (choice_message c)), log)"
    by (simp add: chat_def)
qed


theorem first_request_and_direct_answer_witness:
  "(\<exists>messages. initial_messages (Me [Some ''Profile''] ''Summary'') ''What's your email?''
       [Plain (PDict [(''content'', PStr ''Hi''), (''role'', PStr ''user'')]),
        Plain (PDict [(''role'', PStr ''assistant''), (''content'', PStr ''Hello''),
                      (''metadata'', PNone)]),
        Plain (PList [PStr ''Hi'', PStr ''Hello''])] = Inr messages)
   \<and> (\<exists>clean.
        [Plain (PDict [(''role'', PStr ''system''),
                       (''content'', PStr (system_prompt (Me [Some ''Profile''] ''Summary'')))]),
         Plain (PDict [(''role'', PStr ''user''), (''content'', PStr ''Hi'')]),
         Plain (PDict [(''role'', PStr ''assistant''), (''content'', PStr ''Hello'')]),
         Plain (PList [PStr ''Hi'', PStr ''Hello'']),
         Plain (PDict [(''role'', PStr ''user''), (''content'', PStr ''What's your email?'')])]
        = [Plain (PDict [(''role'', PStr ''system''),
                         (''content'', PStr (system_prompt (Me [Some ''Profile''] ''Summary'')))])]
          @ clean
          @ [Plain (PDict [(''role'', PStr ''user''), (''content'', PStr ''What's your email?'')])]
      \<and> length clean = length
           [Plain (PDict [(''content'', PStr ''Hi''), (''role'', PStr ''user'')]),
            Plain (PDict [(''role'', PStr ''assistant''), (''content'', PStr ''Hello''),
                          (''metadata'', PNone)]),
            Plain (PList [PStr ''Hi'', PStr ''Hello''])])
   \<and> chat (sample_world (answers ''I don't have a public email, but I can pass your contact along.''))
       (Me [Some ''Profile''] ''Summary'') ''What's your email?''
       [Plain (PDict [(''role'', PStr ''user''), (''content'', PStr ''Hi'')]),
        Plain (PDict [(''role'', PStr ''assistant''), (''content'', PStr ''Hello'')])] []
     = Some (Inr (Some ''I don't have a public email, but I can pass your contact along.''), [])"
proof -
  let ?text = "''I don't have a public email, but I can pass your contact along.''"
  let ?w = "sample_world (answers ?text)"
  let ?self = "Me [Some ''Profile''] ''Summary''"
  let ?q = "''What's your email?''"
  let ?sys = "Plain (PDict [(''role'', PStr ''system''), (''content'', PStr (system_prompt ?self))])"
  let ?usr = "Plain (PDict [(''role'', PStr ''user''), (''content'', PStr ?q)])"
  let ?H = "[Plain (PDict [(''content'', PStr ''Hi''), (''role'', PStr ''user'')]),
        Plain (PDict [(''role'', PStr ''assistant''), (''content'', PStr ''Hello''),
                      (''metadata'', PNone)]),
        Plain (PList [PStr ''Hi'', PStr ''Hello''])]"
  let ?M = "[?sys,
         Plain (PDict [(''role'', PStr ''user''), (''content'', PStr ''Hi'')]),
         Plain (PDict [(''role'', PStr ''assistant''), (''content'', PStr ''Hello'')]),
         Plain (PList [PStr ''Hi'', PStr ''Hello'']),
         ?usr]"
  let ?h = "[Plain (PDict [(''role'', PStr ''user''), (''content'', PStr ''Hi'')]),
      Plain (PDict [(''role'', PStr ''assistant''), (''content'', PStr ''Hello'')])]"
  let ?m = "[?sys] @ ?h @ [?usr]"
  note t1 = first_request_and_direct_answer[of ?self ?q ?H ?M ?w "final_choice ?text" "[]" "[]"]
  note t2 = first_request_and_direct_answer[of ?self ?q ?h ?m ?w "final_choice ?text" "[]" "[]"]
  have keys: "list_all has_role_and_content ?H" by simp
  from t1[THEN conjunct1] keys
  have a: "\<exists>messages. initial_messages ?self ?q ?H = Inr messages" by blast
  have run: "initial_messages ?self ?q ?H = Inr ?M" by (simp add: initial_messages_def)
  from t1[THEN conjunct2, THEN conjunct1, THEN mp, OF run]
  have b: "\<exists>clean. ?M = [?sys] @ clean @ [?usr] \<and> length clean = length ?H" by blast
  have only: "list_all only_role_and_content ?h" by simp
  from t2[THEN conjunct2, THEN conjunct2, THEN conjunct1, THEN mp, OF only]
  have i: "initial_messages ?self ?q ?h = Inr ?m" .
  have c: "create ?w (self_model_name ?self) ?m tools = Inr (final_choice ?text # [])
        \<and> finish_reason (final_choice ?text) \<noteq> ''tool_calls''"
    by (simp add: sample_fields answers_def final_choice_def)
  from t2[THEN conjunct2, THEN conjunct2, THEN conjunct2, THEN mp, OF conjI[OF i c]]
  have "chat ?w ?self ?q ?h [] = Some (Inr (message_content (choice_message (final_choice ?text))), [])" .
  then have d: "chat ?w ?self ?q ?h [] = Some (Inr (Some ?text), [])"
    by (simp add: final_choice_def)
  from a b d show ?thesis by blast
qed

text \<open>
  The claim fails on a history entry with a field beyond role and content: the request
  carries the entry without that field, not the prior history.
\<close>

theorem first_request_counterexample:
  "initial_messages (Me [Some ''Profile''] ''Summary'') ''What's your email?''
      [Plain (PDict [(''role'', PStr ''user''), (''content'', PStr ''Hi''), (''metadata'', PNone)])]
   = Inr [Plain (PDict [(''role'', PStr ''system''),
                        (''content'', PStr (system_prompt (Me [Some ''Profile''] ''Summary'')))]),
          Plain (PDict [(''role'', PStr ''user''), (''content'', PStr ''Hi'')]),
          Plain (PDict [(''role'', PStr ''user''), (''content'', PStr ''What's your email?'')])]
   \<and> initial_messages (Me [Some ''Profile''] ''Summary'') ''What's your email?''
      [Plain (PDict [(''role'', PStr ''user''), (''content'', PStr ''Hi''), (''metadata'', PNone)])]
   \<noteq> Inr ([Plain (PDict [(''role'', PStr ''system''),
                        (''content'', PStr (system_prompt (Me [Some ''Profile''] ''Summary'')))])]
          @ [Plain (PDict [(''role'', PStr ''user''), (''content'', PStr ''Hi''), (''metadata'', PNone)])]
          @ [Plain (PDict [(''role'', PStr ''user''), (''content'', PStr ''What's your email?'')])])"
  by (simp add: initial_messages_def)

section \<open>The catalog and its checks\<close>

text \<open>
  The catalog is a literal, built without any check (\<^verbatim>\<open>app.py\<close> has no validation step
  and no \<^verbatim>\<open>SchemaError\<close>). Each of its two entries holds a definition that satisfies the
  three checks the specification lists: a non-empty name, a non-empty description, and a
  \<^verbatim>\<open>required\<close> list that names declared properties only.
\<close>

lemma catalog_definitions_pass_the_checks:
  "list_all (\<lambda>entry. case dict_get entry ''function'' of
                         Some d \<Rightarrow> schema_checks d | None \<Rightarrow> False) tools
   \<and> map (\<lambda>entry. case dict_get entry ''function'' of
                      Some d \<Rightarrow> dict_get d ''name'' | None \<Rightarrow> None) tools
       = [Some (PStr ''record_user_details''), Some (PStr ''record_unknown_question'')]"
  by (simp add: tools_def schema_checks_def record_user_details_json_def
      record_unknown_question_json_def)

end
